theory Spec2Isabelle
  imports Complex_Main
begin

section \<open>Data model (Types.h)\<close>

text \<open>
  \<^verbatim>\<open>cv::Point2f\<close> and \<^verbatim>\<open>cv::Point_<T>\<close>: a pair of coordinates. The scalar type
  \<^verbatim>\<open>T\<close> of the templated functors (double, or a ceres jet) and the \<^verbatim>\<open>float\<close>
  coordinates are embedded into the reals.
\<close>

record Point2 =
  px :: real
  py :: real

text \<open>\<^verbatim>\<open>struct Pose { double theta, tx, ty; }\<close>\<close>

record Pose =
  theta :: real
  tx :: real
  ty :: real

section \<open>Correspondence candidates (CostFunctions.h, getCandidateMappings)\<close>

text \<open>
  \<^verbatim>\<open>std::rotate(v.begin(), v.begin() + k, v.end())\<close> for \<open>k \<le> size\<close>: the element at
  index \<open>k\<close> becomes the first one, the first \<open>k\<close> elements go to the back.
\<close>

definition std_rotate :: "nat \<Rightarrow> 'a list \<Rightarrow> 'a list" where
  "std_rotate k v = drop k v @ take k v"

text \<open>The loop \<^verbatim>\<open>for (k = 0; k < n; ++k) { rolled = pts; rotate; cands.push_back(rolled); }\<close>\<close>

definition cyclic_shifts :: "'a list \<Rightarrow> 'a list list" where
  "cyclic_shifts pts = map (\<lambda>k. std_rotate k pts) [0..<length pts]"

definition admits_reflection :: "string \<Rightarrow> nat \<Rightarrow> bool" where
  "admits_reflection shape_type n \<longleftrightarrow>
     shape_type = ''triangle'' \<or> shape_type = ''parallelogram'' \<or> shape_type = ''square''
     \<or> n = 3 \<or> n = 4"

definition getCandidateMappings :: "'a list \<Rightarrow> string \<Rightarrow> 'a list list" where
  "getCandidateMappings pts shape_type =
     (if pts = [] then []
      else
        let n = length pts;
            cands = cyclic_shifts pts
        in if admits_reflection shape_type n
           then cands @ cyclic_shifts (rev pts)
           else cands)"

section \<open>Reprojection residual (CostFunctions.h, ReprojectionCostFunctor)\<close>

text \<open>
  Failure values of the embedded code. \<open>DivisionByZero\<close> marks a quotient of the projection
  evaluated with a zero divisor; \<open>IndexOutOfRange\<close> marks a read of \<^verbatim>\<open>v[i]\<close> with \<open>i\<close>
  beyond the vector's size.
\<close>

datatype error = DivisionByZero | IndexOutOfRange

definition checked_div :: "real \<Rightarrow> real \<Rightarrow> error + real" where
  "checked_div a b = (if b = 0 then Inl DivisionByZero else Inr (a / b))"

text \<open>The members of the functor; the constructor stores \<^verbatim>\<open>std::sqrt(weight)\<close>.\<close>

record ReprojectionCostFunctor =
  detected_points :: "Point2 list"
  model_points :: "Point2 list"
  shape_type :: string
  weight_sqrt :: real
  f_scale :: real

definition make_ReprojectionCostFunctor ::
  "Point2 list \<Rightarrow> Point2 list \<Rightarrow> string \<Rightarrow> real \<Rightarrow> real \<Rightarrow> ReprojectionCostFunctor" where
  "make_ReprojectionCostFunctor detected model shape weight fscale =
     \<lparr>detected_points = detected, model_points = model, shape_type = shape,
      weight_sqrt = sqrt weight, f_scale = fscale\<rparr>"

text \<open>\<^verbatim>\<open>std::numeric_limits<double>::max()\<close>, the largest finite double.\<close>

definition DBL_MAX :: real where
  "DBL_MAX = 2 ^ 1024 - 2 ^ 971"

text \<open>The literal \<^verbatim>\<open>1e-8\<close> of the denominator test.\<close>

definition w_eps :: real where
  "w_eps = 1 / 100000000"

subsection \<open>Doubles with overflow, infinities and NaN\<close>

text \<open>
  The value of a \<^verbatim>\<open>double\<close> expression in the correspondence search: a finite real, an
  infinity, or NaN. An operation on finite operands gives the exact real result when that
  lies between \<open>- DBL_MAX\<close> and \<open>DBL_MAX\<close> and the infinity of its sign beyond; the
  operations on infinities and NaN follow IEEE 754. Rounding and the sign of zero are not represented: a zero divisor
  counts as \<open>+0\<close>.
\<close>

datatype scalar = Finite real | PosInf | NegInf | NaN

definition to_scalar :: "real \<Rightarrow> scalar" where
  "to_scalar v = (if DBL_MAX < v then PosInf else if v < - DBL_MAX then NegInf else Finite v)"

definition inf_of_sign :: "real \<Rightarrow> scalar" where
  "inf_of_sign r = (if 0 < r then PosInf else if r < 0 then NegInf else NaN)"

fun s_sign :: "scalar \<Rightarrow> real" where
  "s_sign (Finite x) = sgn x"
| "s_sign PosInf = 1"
| "s_sign NegInf = - 1"
| "s_sign NaN = 0"

fun s_neg :: "scalar \<Rightarrow> scalar" where
  "s_neg (Finite x) = Finite (- x)"
| "s_neg PosInf = NegInf"
| "s_neg NegInf = PosInf"
| "s_neg NaN = NaN"

fun s_add :: "scalar \<Rightarrow> scalar \<Rightarrow> scalar" where
  "s_add (Finite x) (Finite y) = to_scalar (x + y)"
| "s_add NaN b = NaN"
| "s_add a NaN = NaN"
| "s_add PosInf NegInf = NaN"
| "s_add NegInf PosInf = NaN"
| "s_add PosInf b = PosInf"
| "s_add a PosInf = PosInf"
| "s_add NegInf b = NegInf"
| "s_add a NegInf = NegInf"

definition s_sub :: "scalar \<Rightarrow> scalar \<Rightarrow> scalar" where
  "s_sub a b = s_add a (s_neg b)"

fun s_mul :: "scalar \<Rightarrow> scalar \<Rightarrow> scalar" where
  "s_mul (Finite x) (Finite y) = to_scalar (x * y)"
| "s_mul NaN b = NaN"
| "s_mul a NaN = NaN"
| "s_mul a b = inf_of_sign (s_sign a * s_sign b)"

fun s_div :: "scalar \<Rightarrow> scalar \<Rightarrow> scalar" where
  "s_div NaN b = NaN"
| "s_div a NaN = NaN"
| "s_div (Finite x) (Finite y) = (if y = 0 then inf_of_sign (sgn x) else to_scalar (x / y))"
| "s_div (Finite x) b = Finite 0"
| "s_div a (Finite y) = inf_of_sign (s_sign a * (if y < 0 then - 1 else 1))"
| "s_div a b = NaN"

fun s_sqrt :: "scalar \<Rightarrow> scalar" where
  "s_sqrt (Finite x) = (if x < 0 then NaN else Finite (sqrt x))"
| "s_sqrt PosInf = PosInf"
| "s_sqrt NegInf = NaN"
| "s_sqrt NaN = NaN"

fun s_le :: "scalar \<Rightarrow> scalar \<Rightarrow> bool" where
  "s_le (Finite x) (Finite y) \<longleftrightarrow> x \<le> y"
| "s_le NaN b \<longleftrightarrow> False"
| "s_le a NaN \<longleftrightarrow> False"
| "s_le NegInf b \<longleftrightarrow> True"
| "s_le a PosInf \<longleftrightarrow> True"
| "s_le a b \<longleftrightarrow> False"

fun s_lt :: "scalar \<Rightarrow> scalar \<Rightarrow> bool" where
  "s_lt (Finite x) (Finite y) \<longleftrightarrow> x < y"
| "s_lt NaN b \<longleftrightarrow> False"
| "s_lt a NaN \<longleftrightarrow> False"
| "s_lt PosInf b \<longleftrightarrow> False"
| "s_lt a NegInf \<longleftrightarrow> False"
| "s_lt a b \<longleftrightarrow> True"

subsection \<open>The projection\<close>

text \<open>
  The pose step and the homography step of the projection loop, for one model vertex.
  A parameter block \<^verbatim>\<open>const T* const\<close> is a function from offsets to scalars.
\<close>

definition plane_point :: "real \<Rightarrow> real \<Rightarrow> real \<Rightarrow> real \<Rightarrow> real \<Rightarrow> Point2 \<Rightarrow> Point2" where
  "plane_point scale cos_theta sin_theta t_x t_y p_model =
     (let model_x = px p_model * scale;
          model_y = py p_model * scale
      in \<lparr>px = cos_theta * model_x - sin_theta * model_y + t_x,
          py = sin_theta * model_x + cos_theta * model_y + t_y\<rparr>)"

definition raw_w :: "(nat \<Rightarrow> real) \<Rightarrow> Point2 \<Rightarrow> real" where
  "raw_w H_params plane = H_params 6 * px plane + H_params 7 * py plane + 1"

definition clamp_w :: "real \<Rightarrow> real" where
  "clamp_w projected_w = (if \<bar>projected_w\<bar> < w_eps then w_eps else projected_w)"

definition numerator_x :: "(nat \<Rightarrow> real) \<Rightarrow> Point2 \<Rightarrow> real" where
  "numerator_x H_params plane = H_params 0 * px plane + H_params 1 * py plane + H_params 2"

definition numerator_y :: "(nat \<Rightarrow> real) \<Rightarrow> Point2 \<Rightarrow> real" where
  "numerator_y H_params plane = H_params 3 * px plane + H_params 4 * py plane + H_params 5"

definition project_point ::
  "(nat \<Rightarrow> real) \<Rightarrow> real \<Rightarrow> real \<Rightarrow> real \<Rightarrow> real \<Rightarrow> real \<Rightarrow> Point2 \<Rightarrow> error + Point2" where
  "project_point H_params scale cos_theta sin_theta t_x t_y p_model =
     (let plane = plane_point scale cos_theta sin_theta t_x t_y p_model;
          projected_w = clamp_w (raw_w H_params plane)
      in case checked_div (numerator_x H_params plane) projected_w of
           Inl e \<Rightarrow> Inl e
         | Inr projected_x \<Rightarrow>
             (case checked_div (numerator_y H_params plane) projected_w of
                Inl e \<Rightarrow> Inl e
              | Inr projected_y \<Rightarrow> Inr \<lparr>px = projected_x, py = projected_y\<rparr>))"

fun project_model_points ::
  "(nat \<Rightarrow> real) \<Rightarrow> real \<Rightarrow> real \<Rightarrow> real \<Rightarrow> real \<Rightarrow> real \<Rightarrow> Point2 list \<Rightarrow> error + Point2 list" where
  "project_model_points H_params scale cos_theta sin_theta t_x t_y [] = Inr []"
| "project_model_points H_params scale cos_theta sin_theta t_x t_y (p_model # rest) =
     (case project_point H_params scale cos_theta sin_theta t_x t_y p_model of
        Inl e \<Rightarrow> Inl e
      | Inr q \<Rightarrow>
          (case project_model_points H_params scale cos_theta sin_theta t_x t_y rest of
             Inl e \<Rightarrow> Inl e
           | Inr qs \<Rightarrow> Inr (q # qs)))"

text \<open>The lambda \<^verbatim>\<open>huber\<close> of the correspondence search.\<close>

definition huber :: "real \<Rightarrow> real" where
  "huber s2 = (if s2 \<le> 1 then s2 else 2 * sqrt s2 - 1)"

subsection \<open>The correspondence search\<close>

text \<open>
  The costs of the search are computed in doubles: the differences of the projected and the
  detected coordinates, their scaling, the division by \<^verbatim>\<open>f_scale_\<close>, the squares, the
  lambda \<^verbatim>\<open>huber\<close> and the sums. The projected points and the residual values written
  at the end are taken over the reals.

  The lambda \<^verbatim>\<open>huber\<close> on a double.
\<close>

definition huber_d :: "scalar \<Rightarrow> scalar" where
  "huber_d s2 =
     (if s_le s2 (Finite 1) then s2
      else s_sub (s_mul (Finite 2) (s_sqrt s2)) (Finite 1))"

text \<open>One pass of the inner loop body: the contribution of vertex \<open>i\<close> to a candidate's cost.\<close>

definition cost_term :: "real \<Rightarrow> real \<Rightarrow> Point2 \<Rightarrow> Point2 \<Rightarrow> scalar" where
  "cost_term ws fs q c =
     (let dx = s_mul (s_sub (Finite (px q)) (Finite (px c))) (Finite ws);
          dy = s_mul (s_sub (Finite (py q)) (Finite (py c))) (Finite ws);
          rx = s_div dx (Finite fs);
          ry = s_div dy (Finite fs);
          sx2 = s_mul rx rx;
          sy2 = s_mul ry ry
      in s_add (huber_d sx2) (huber_d sy2))"

text \<open>
  The inner loop over \<open>i < projected.size()\<close>, reading \<^verbatim>\<open>projected[i]\<close> and \<^verbatim>\<open>cand[i]\<close>; the
  last argument is the running \<^verbatim>\<open>cost\<close>.
\<close>

fun candidate_cost :: "real \<Rightarrow> real \<Rightarrow> Point2 list \<Rightarrow> Point2 list \<Rightarrow> scalar \<Rightarrow> error + scalar" where
  "candidate_cost ws fs [] cand cost = Inr cost"
| "candidate_cost ws fs (q # qs) [] cost = Inl IndexOutOfRange"
| "candidate_cost ws fs (q # qs) (c # cs) cost =
     candidate_cost ws fs qs cs (s_add cost (cost_term ws fs q c))"

text \<open>
  The outer loop over the candidates, from index \<open>c_idx\<close> on, with the running
  \<^verbatim>\<open>min_cost\<close> and \<^verbatim>\<open>best_candidate_idx\<close>.
\<close>

fun search_candidates ::
  "real \<Rightarrow> real \<Rightarrow> Point2 list \<Rightarrow> Point2 list list \<Rightarrow> nat \<Rightarrow> scalar \<Rightarrow> int \<Rightarrow> error + int" where
  "search_candidates ws fs projected [] c_idx min_cost best_candidate_idx = Inr best_candidate_idx"
| "search_candidates ws fs projected (cand # rest) c_idx min_cost best_candidate_idx =
     (case candidate_cost ws fs projected cand (Finite 0) of
        Inl e \<Rightarrow> Inl e
      | Inr cost \<Rightarrow>
          if s_lt cost min_cost
          then search_candidates ws fs projected rest (Suc c_idx) cost (int c_idx)
          else search_candidates ws fs projected rest (Suc c_idx) min_cost best_candidate_idx)"

text \<open>The two loops that fill \<^verbatim>\<open>residuals[2 * i]\<close> and \<^verbatim>\<open>residuals[2 * i + 1]\<close>.\<close>

fun write_residuals :: "real \<Rightarrow> Point2 list \<Rightarrow> Point2 list \<Rightarrow> error + real list" where
  "write_residuals ws [] cand = Inr []"
| "write_residuals ws (q # qs) [] = Inl IndexOutOfRange"
| "write_residuals ws (q # qs) (c # cs) =
     (case write_residuals ws qs cs of
        Inl e \<Rightarrow> Inl e
      | Inr rs \<Rightarrow> Inr (ws * (px q - px c) # ws * (py q - py c) # rs))"

fun zero_residuals :: "'a list \<Rightarrow> real list" where
  "zero_residuals [] = []"
| "zero_residuals (p # ps) = 0 # 0 # zero_residuals ps"

text \<open>
  \<^verbatim>\<open>operator()\<close>: \<open>Inr\<close> of the residual block stands for \<^verbatim>\<open>return true\<close> with the
  residuals written.
\<close>

definition evaluate ::
  "ReprojectionCostFunctor \<Rightarrow> (nat \<Rightarrow> real) \<Rightarrow> (nat \<Rightarrow> real) \<Rightarrow> (nat \<Rightarrow> real) \<Rightarrow> error + real list" where
  "evaluate F H_params scale_param pose_params =
     (let scale = scale_param 0;
          theta_v = pose_params 0;
          t_x = pose_params 1;
          t_y = pose_params 2;
          cos_theta = cos theta_v;
          sin_theta = sin theta_v
      in case project_model_points H_params scale cos_theta sin_theta t_x t_y (model_points F) of
           Inl e \<Rightarrow> Inl e
         | Inr projected \<Rightarrow>
             (let candidates = getCandidateMappings (detected_points F) (shape_type F)
              in case search_candidates (weight_sqrt F) (f_scale F) projected candidates
                        0 (Finite DBL_MAX) (- 1) of
                   Inl e \<Rightarrow> Inl e
                 | Inr best_candidate_idx \<Rightarrow>
                     if best_candidate_idx \<noteq> - 1
                     then write_residuals (weight_sqrt F) projected
                            (candidates ! nat best_candidate_idx)
                     else Inr (zero_residuals (model_points F))))"

subsection \<open>Closed forms used to state the properties\<close>

text \<open>The projection of one model vertex, with the clamped denominator as divisor.\<close>

definition projected_vertex ::
  "(nat \<Rightarrow> real) \<Rightarrow> real \<Rightarrow> real \<Rightarrow> real \<Rightarrow> real \<Rightarrow> real \<Rightarrow> Point2 \<Rightarrow> Point2" where
  "projected_vertex H_params scale cos_theta sin_theta t_x t_y p_model =
     (let plane = plane_point scale cos_theta sin_theta t_x t_y p_model;
          w = clamp_w (raw_w H_params plane)
      in \<lparr>px = numerator_x H_params plane / w, py = numerator_y H_params plane / w\<rparr>)"

text \<open>The projected model polygon of an evaluation at the given parameter blocks.\<close>

definition projected_points ::
  "ReprojectionCostFunctor \<Rightarrow> (nat \<Rightarrow> real) \<Rightarrow> (nat \<Rightarrow> real) \<Rightarrow> (nat \<Rightarrow> real) \<Rightarrow> Point2 list" where
  "projected_points F H_params scale_param pose_params =
     map (projected_vertex H_params (scale_param 0) (cos (pose_params 0)) (sin (pose_params 0))
            (pose_params 1) (pose_params 2))
         (model_points F)"

subsection \<open>Concrete inputs\<close>

text \<open>
  Parameter blocks and functors at which the properties below are evaluated: the identity
  homography, unit scale, the zero pose, poses whose translation is the double \<open>2^1023\<close> or
  \<open>2^512\<close>, a functor whose \<open>f_scale\<close> is zero, and
  a homography whose perspective row makes the denominator of the vertex \<open>(1, 0)\<close> equal to
  \<open>-10^-9\<close>.
\<close>

definition identity_H :: "nat \<Rightarrow> real" where
  "identity_H i = (if i = 0 \<or> i = 4 then 1 else 0)"

definition unit_scale :: "nat \<Rightarrow> real" where
  "unit_scale i = 1"

definition zero_pose :: "nat \<Rightarrow> real" where
  "zero_pose i = 0"

definition far_offset :: real where
  "far_offset = 2 ^ 1023"

definition far_pose :: "nat \<Rightarrow> real" where
  "far_pose i = (if i = 1 then far_offset else 0)"

definition overflow_offset :: real where
  "overflow_offset = 2 ^ 512"

definition overflow_pose :: "nat \<Rightarrow> real" where
  "overflow_pose i = (if i = 1 then overflow_offset else 0)"

definition near_singular_H :: "nat \<Rightarrow> real" where
  "near_singular_H i =
     (if i = 0 \<or> i = 4 then 1 else if i = 6 then - 1 - 1 / 1000000000 else 0)"

definition segment_functor :: ReprojectionCostFunctor where
  "segment_functor =
     \<lparr>detected_points = [\<lparr>px = 1, py = 0\<rparr>, \<lparr>px = 0, py = 3\<rparr>],
      model_points = [\<lparr>px = 0, py = 0\<rparr>, \<lparr>px = 1, py = 0\<rparr>],
      shape_type = ''segment'', weight_sqrt = 1, f_scale = 1\<rparr>"

definition single_point_functor :: ReprojectionCostFunctor where
  "single_point_functor =
     \<lparr>detected_points = [\<lparr>px = 0, py = 0\<rparr>],
      model_points = [\<lparr>px = 0, py = 0\<rparr>],
      shape_type = ''point'', weight_sqrt = 1, f_scale = 1\<rparr>"

definition zero_f_scale_functor :: ReprojectionCostFunctor where
  "zero_f_scale_functor = segment_functor\<lparr>f_scale := 0\<rparr>"

definition unobserved_functor :: ReprojectionCostFunctor where
  "unobserved_functor =
     \<lparr>detected_points = [],
      model_points = [\<lparr>px = 0, py = 0\<rparr>, \<lparr>px = 1, py = 0\<rparr>, \<lparr>px = 0, py = 1\<rparr>],
      shape_type = ''triangle'', weight_sqrt = 1, f_scale = 1\<rparr>"

section \<open>Solution records (Types.h)\<close>

text \<open>\<^verbatim>\<open>cv::Matx33d\<close>: a 3 by 3 matrix of doubles, row by row.\<close>

record Matx33d =
  m00 :: real
  m01 :: real
  m02 :: real
  m10 :: real
  m11 :: real
  m12 :: real
  m20 :: real
  m21 :: real
  m22 :: real

text \<open>
  \<^verbatim>\<open>struct BASolution\<close>, without the profiling timings and the correspondence map. The maps
  keyed by class id are partial functions for the poses and an association list for the
  errors, whose values are averaged.
\<close>

record BASolution =
  sol_H :: Matx33d
  sol_scale :: real
  sol_poses :: "int \<rightharpoonup> Pose"
  sol_errors :: "(int \<times> real) list"
  trackingQuality :: real
  homographyLocked :: bool

section \<open>State vector of the filter (Parameterization.h, KalmanTracker.h)\<close>



text \<open>
  Modelled from the spec: the body of \<^verbatim>\<open>packParamsTracked\<close> is missing, only its declaration
  is in Parameterization.h. The flattened vector holds the 8 free parameters of H row by row
  (the entry \<open>H[2][2]\<close> is not stored), then the scale, then three scalars
  \<open>theta, tx, ty\<close> for each of the \<open>n_objects\<close> class ids \<open>0 .. n_objects - 1\<close>; the slots of a
  class id without a pose are zero, and a pose whose class id has no slot is not stored.
\<close>

definition pose_slot :: "(int \<rightharpoonup> Pose) \<Rightarrow> nat \<Rightarrow> real list" where
  "pose_slot poses_in i =
     (case poses_in (int i) of
        None \<Rightarrow> [0, 0, 0]
      | Some p \<Rightarrow> [theta p, tx p, ty p])"

definition packParamsTracked :: "Matx33d \<Rightarrow> real \<Rightarrow> (int \<rightharpoonup> Pose) \<Rightarrow> nat \<Rightarrow> real list" where
  "packParamsTracked H_in scale_in poses_in n_objects =
     [m00 H_in, m01 H_in, m02 H_in, m10 H_in, m11 H_in, m12 H_in, m20 H_in, m21 H_in]
     @ [scale_in]
     @ concat (map (pose_slot poses_in) [0..<n_objects])"







section \<open>Tracking orchestrator (TrackedBA.h)\<close>

text \<open>
  The configuration and state members of \<^verbatim>\<open>TrackedBA\<close>. The filter and the solver, owned
  through pointers, and the telemetry of the last run are left out: the gate and the lock
  read and write none of them.
\<close>

record TrackedBA =
  locking_enabled :: bool
  frames_needed_for_lock :: int
  lock_error_threshold :: real
  unlock_error_threshold :: real
  error_rejection_threshold :: real
  h_update_min_improvement :: real
  h_update_max_norm :: real
  previous_mean_error :: real
  accepted_H :: Matx33d
  accepted_scale :: real
  homography_locked :: bool
  locked_H :: Matx33d
  locked_scale :: real
  frames_stable :: int

text \<open>
  The default member initializers of TrackedBA.h. The matrices \<^verbatim>\<open>accepted_H_\<close> and
  \<^verbatim>\<open>locked_H_\<close> have none; their initial value is a parameter.
\<close>

definition new_TrackedBA :: "Matx33d \<Rightarrow> TrackedBA" where
  "new_TrackedBA H0 =
     \<lparr>locking_enabled = True,
      frames_needed_for_lock = 5,
      lock_error_threshold = 5,
      unlock_error_threshold = 15,
      error_rejection_threshold = 2,
      h_update_min_improvement = 5 / 100,
      h_update_max_norm = 10 / 100,
      previous_mean_error = - 1,
      accepted_H = H0,
      accepted_scale = 1,
      homography_locked = False,
      locked_H = H0,
      locked_scale = 1,
      frames_stable = 0\<rparr>"

definition setLockingEnabled :: "bool \<Rightarrow> TrackedBA \<Rightarrow> TrackedBA" where
  "setLockingEnabled enabled T = T\<lparr>locking_enabled := enabled\<rparr>"

text \<open>
  Modelled from the spec: the body of \<^verbatim>\<open>TrackedBA::processFrame\<close> is missing, only its
  declaration is in TrackedBA.h. The definitions below follow steps 5, 7 and 8 of the
  per-frame algorithm of the spec; the frame is given by the optimizer's solution for it
  (the outcome of steps 1 to 4), and the filter update of step 6 is left out.

  The mean piece error of a solution; a solution without pieces has mean error 0.
\<close>

definition mean_error :: "BASolution \<Rightarrow> real" where
  "mean_error sol =
     (if sol_errors sol = [] then 0
      else sum_list (map snd (sol_errors sol)) / real (length (sol_errors sol)))"

text \<open>
  Modelled from the spec: the fractional improvement of the mean error relative to
  \<^verbatim>\<open>previous_mean_error_\<close>; there is none relative to a previous error of zero.
\<close>

definition relative_improvement :: "real \<Rightarrow> real \<Rightarrow> real option" where
  "relative_improvement previous current =
     (if previous = 0 then None else Some ((previous - current) / previous))"

text \<open>
  Modelled from the spec: the norm of the change of the 8 free parameters of H.
\<close>

definition h_update_norm :: "Matx33d \<Rightarrow> Matx33d \<Rightarrow> real" where
  "h_update_norm A B =
     sqrt ((m00 A - m00 B)\<^sup>2 + (m01 A - m01 B)\<^sup>2 + (m02 A - m02 B)\<^sup>2
         + (m10 A - m10 B)\<^sup>2 + (m11 A - m11 B)\<^sup>2 + (m12 A - m12 B)\<^sup>2
         + (m20 A - m20 B)\<^sup>2 + (m21 A - m21 B)\<^sup>2)"

text \<open>
  Modelled from the spec, step 5: the optimizer's new H and scale are accepted only if the
  mean piece error improved by at least \<^verbatim>\<open>h_update_min_improvement_\<close> and the norm of the
  change of H is below \<^verbatim>\<open>h_update_max_norm_\<close>. With locking disabled the gate always passes.
\<close>

definition improved_enough :: "TrackedBA \<Rightarrow> BASolution \<Rightarrow> bool" where
  "improved_enough T cand =
     (case relative_improvement (previous_mean_error T) (mean_error cand) of
        None \<Rightarrow> False
      | Some r \<Rightarrow> h_update_min_improvement T \<le> r)"

definition h_update_gate :: "TrackedBA \<Rightarrow> BASolution \<Rightarrow> bool" where
  "h_update_gate T cand \<longleftrightarrow>
     \<not> locking_enabled T
     \<or> (improved_enough T cand
        \<and> h_update_norm (sol_H cand) (accepted_H T) < h_update_max_norm T)"

text \<open>
  Modelled from the spec, step 5 and the locked state of step 7: while the homography is
  locked, H and scale are frozen and nothing is accepted; otherwise the candidate's H and
  scale are accepted if the gate passes. The mean error of the frame becomes the previous one.
\<close>

definition gate_step :: "TrackedBA \<Rightarrow> BASolution \<Rightarrow> TrackedBA" where
  "gate_step T cand =
     (if \<not> homography_locked T \<and> h_update_gate T cand
      then T\<lparr>accepted_H := sol_H cand, accepted_scale := sol_scale cand,
             previous_mean_error := mean_error cand\<rparr>
      else T\<lparr>previous_mean_error := mean_error cand\<rparr>)"

text \<open>
  Modelled from the spec, step 7: the counter of consecutive frames with a mean error below
  \<^verbatim>\<open>lock_error_threshold_\<close>; when it reaches \<^verbatim>\<open>frames_needed_for_lock_\<close> the homography is
  locked at the accepted H and scale of that moment. While locked, a mean error above
  \<^verbatim>\<open>unlock_error_threshold_\<close> unlocks. With locking disabled nothing locks.
\<close>

definition lock_step :: "TrackedBA \<Rightarrow> real \<Rightarrow> TrackedBA" where
  "lock_step T err =
     (if \<not> locking_enabled T then T
      else if homography_locked T
      then (if unlock_error_threshold T < err
            then T\<lparr>homography_locked := False, frames_stable := 0\<rparr>
            else T)
      else if err < lock_error_threshold T
      then (let n = frames_stable T + 1
            in if frames_needed_for_lock T \<le> n
               then T\<lparr>homography_locked := True, locked_H := accepted_H T,
                      locked_scale := accepted_scale T, frames_stable := n\<rparr>
               else T\<lparr>frames_stable := n\<rparr>)
      else T\<lparr>frames_stable := 0\<rparr>)"

text \<open>
  Modelled from the spec, step 8: the emitted solution carries the poses and errors of the
  optimizer's solution, the lock flag, and as H and scale the locked ones while locked and
  the accepted ones otherwise.
\<close>

definition emit_solution :: "TrackedBA \<Rightarrow> BASolution \<Rightarrow> BASolution" where
  "emit_solution T cand =
     (if homography_locked T
      then cand\<lparr>sol_H := locked_H T, sol_scale := locked_scale T, homographyLocked := True\<rparr>
      else cand\<lparr>sol_H := accepted_H T, sol_scale := accepted_scale T, homographyLocked := False\<rparr>)"

definition processFrame :: "TrackedBA \<Rightarrow> BASolution \<Rightarrow> TrackedBA \<times> BASolution" where
  "processFrame T cand =
     (let T1 = gate_step T cand;
          T2 = lock_step T1 (mean_error cand)
      in (T2, emit_solution T2 cand))"

text \<open>A sequence of frames, each given by the optimizer's solution for it.\<close>

fun processFrames :: "TrackedBA \<Rightarrow> BASolution list \<Rightarrow> TrackedBA" where
  "processFrames T [] = T"
| "processFrames T (cand # rest) = processFrames (fst (processFrame T cand)) rest"

text \<open>The configuration under which the lock is studied: the defaults of TrackedBA.h.\<close>

definition default_locking :: "TrackedBA \<Rightarrow> bool" where
  "default_locking T \<longleftrightarrow>
     locking_enabled T \<and> frames_needed_for_lock T = 5
     \<and> lock_error_threshold T = 5 \<and> unlock_error_threshold T = 15"

subsection \<open>Concrete trackers, orchestrators and frames\<close>

definition identity_matx :: Matx33d where
  "identity_matx =
     \<lparr>m00 = 1, m01 = 0, m02 = 0, m10 = 0, m11 = 1, m12 = 0, m20 = 0, m21 = 0, m22 = 1\<rparr>"

definition shifted_matx :: Matx33d where
  "shifted_matx = identity_matx\<lparr>m02 := 1\<rparr>"

definition example_poses :: "int \<rightharpoonup> Pose" where
  "example_poses =
     [0 \<mapsto> \<lparr>theta = 1, tx = 2, ty = 3\<rparr>, 3 \<mapsto> \<lparr>theta = 0, tx = - 4, ty = 5\<rparr>]"




text \<open>A frame whose optimizer solution has the given H and one piece with the given error.\<close>

definition frame_solution :: "Matx33d \<Rightarrow> real \<Rightarrow> BASolution" where
  "frame_solution A e =
     \<lparr>sol_H = A, sol_scale = 1, sol_poses = example_poses, sol_errors = [(0, e)],
      trackingQuality = 1, homographyLocked = False\<rparr>"

definition locked_TrackedBA :: TrackedBA where
  "locked_TrackedBA = (new_TrackedBA identity_matx)\<lparr>homography_locked := True, frames_stable := 5\<rparr>"

section \<open>Properties of the candidate set\<close>

lemma std_rotate_eq_rotate:
  "k < length v \<Longrightarrow> std_rotate k v = rotate k v"
  by (simp add: std_rotate_def rotate_drop_take)

lemma length_cyclic_shifts [simp]: "length (cyclic_shifts pts) = length pts"
  by (simp add: cyclic_shifts_def)

lemma cyclic_shifts_nth:
  "k < length pts \<Longrightarrow> cyclic_shifts pts ! k = rotate k pts"
  by (simp add: cyclic_shifts_def std_rotate_eq_rotate)

lemma length_candidate [simp]:
  "c \<in> set (cyclic_shifts pts) \<Longrightarrow> length c = length pts"
  by (auto simp: cyclic_shifts_def std_rotate_def)

lemma getCandidateMappings_Nil [simp]: "getCandidateMappings [] shape = []"
  by (simp add: getCandidateMappings_def)

lemma getCandidateMappings_lengths:
  "c \<in> set (getCandidateMappings pts shape) \<Longrightarrow> length c = length pts"
  by (auto simp: getCandidateMappings_def Let_def split: if_splits)

text \<open>
  Claim C1. For a non-empty list of \<open>n\<close> detected points, \<open>getCandidateMappings\<close> returns
  exactly \<open>2n\<close> orderings when the shape type is triangle, parallelogram or square, or when
  \<open>n\<close> is 3 or 4: the \<open>n\<close> cyclic shifts of the input (candidate \<open>k\<close> is the input rotated
  left by \<open>k\<close>) followed by the \<open>n\<close> cyclic shifts of the reversed input. For every other
  shape type with \<open>n\<close> not 3 or 4 it returns exactly the \<open>n\<close> cyclic shifts. For the empty
  input it returns the empty list.
\<close>

lemma shifts_rotate: "cyclic_shifts v = map (\<lambda>k. rotate k v) [0..<length v]"
  unfolding cyclic_shifts_def by (rule map_cong) (simp_all add: std_rotate_eq_rotate)

lemma refl_iff: "admits_reflection shape n \<longleftrightarrow>
      shape \<in> {''triangle'', ''parallelogram'', ''square''} \<or> n \<in> {3, 4}"
  unfolding admits_reflection_def by blast

lemma gcm_reflect:
  "pts \<noteq> [] \<Longrightarrow> admits_reflection shape (length pts) \<Longrightarrow>
   getCandidateMappings pts shape = cyclic_shifts pts @ cyclic_shifts (rev pts)"
  unfolding getCandidateMappings_def Let_def by (simp only: if_False if_True)

lemma gcm_plain:
  "pts \<noteq> [] \<Longrightarrow> \<not> admits_reflection shape (length pts) \<Longrightarrow>
   getCandidateMappings pts shape = cyclic_shifts pts"
  unfolding getCandidateMappings_def Let_def by (simp only: if_False if_True)


theorem getCandidateMappings_count:
  "(pts \<noteq> [] \<and> (shape \<in> {''triangle'', ''parallelogram'', ''square''}
                 \<or> length pts \<in> {3, 4}) \<longrightarrow>
      length (getCandidateMappings pts shape) = 2 * length pts
      \<and> getCandidateMappings pts shape =
          map (\<lambda>k. rotate k pts) [0..<length pts]
          @ map (\<lambda>k. rotate k (rev pts)) [0..<length pts])
   \<and> (pts \<noteq> [] \<and> shape \<notin> {''triangle'', ''parallelogram'', ''square''}
        \<and> length pts \<notin> {3, 4} \<longrightarrow>
      length (getCandidateMappings pts shape) = length pts
      \<and> getCandidateMappings pts shape = map (\<lambda>k. rotate k pts) [0..<length pts])
   \<and> getCandidateMappings ([] :: 'a list) shape = []"
proof (intro conjI impI)
  assume a: "pts \<noteq> [] \<and> (shape \<in> {''triangle'', ''parallelogram'', ''square''}
                 \<or> length pts \<in> {3, 4})"
  then have r: "admits_reflection shape (length pts)"
    by (simp only: refl_iff)
  from a have eq: "getCandidateMappings pts shape = cyclic_shifts pts @ cyclic_shifts (rev pts)"
    using gcm_reflect [OF _ r] by blast
  show "length (getCandidateMappings pts shape) = 2 * length pts"
    by (simp only: eq length_append length_cyclic_shifts length_rev mult_2)
  show "getCandidateMappings pts shape =
          map (\<lambda>k. rotate k pts) [0..<length pts]
          @ map (\<lambda>k. rotate k (rev pts)) [0..<length pts]"
    using shifts_rotate [of pts] shifts_rotate [of "rev pts"]
    by (simp only: eq length_rev)
next
  assume a: "pts \<noteq> [] \<and> shape \<notin> {''triangle'', ''parallelogram'', ''square''}
        \<and> length pts \<notin> {3, 4}"
  then have r: "\<not> admits_reflection shape (length pts)"
    by (simp only: refl_iff de_Morgan_disj simp_thms)
  from a have eq: "getCandidateMappings pts shape = cyclic_shifts pts"
    using gcm_plain [OF _ r] by blast
  show "length (getCandidateMappings pts shape) = length pts"
    by (simp only: eq length_cyclic_shifts)
  show "getCandidateMappings pts shape = map (\<lambda>k. rotate k pts) [0..<length pts]"
    by (simp only: eq shifts_rotate)
next
  show "getCandidateMappings ([] :: 'a list) shape = []"
    by (rule getCandidateMappings_Nil)
qed




theorem getCandidateMappings_count_witness:
  "getCandidateMappings [1, 2, 3 :: nat] ''circle''
     = [[1, 2, 3], [2, 3, 1], [3, 1, 2], [3, 2, 1], [2, 1, 3], [1, 3, 2]]
   \<and> getCandidateMappings [1, 2, 3, 4, 5 :: nat] ''pentagon''
     = [[1, 2, 3, 4, 5], [2, 3, 4, 5, 1], [3, 4, 5, 1, 2], [4, 5, 1, 2, 3], [5, 1, 2, 3, 4]]
   \<and> length (getCandidateMappings [7, 8 :: nat] ''square'') = 4"
proof -
  have p1: "[1, 2, 3 :: nat] \<noteq> [] \<and> (''circle'' \<in> {''triangle'', ''parallelogram'', ''square''}
                 \<or> length [1, 2, 3 :: nat] \<in> {3, 4})"
    by simp
  have p2: "[1, 2, 3, 4, 5 :: nat] \<noteq> []
        \<and> ''pentagon'' \<notin> {''triangle'', ''parallelogram'', ''square''}
        \<and> length [1, 2, 3, 4, 5 :: nat] \<notin> {3, 4}"
    by simp
  have p3: "[7, 8 :: nat] \<noteq> [] \<and> (''square'' \<in> {''triangle'', ''parallelogram'', ''square''}
                 \<or> length [7, 8 :: nat] \<in> {3, 4})"
    by simp
  note c1 = getCandidateMappings_count [of "[1, 2, 3 :: nat]" "''circle''",
      THEN conjunct1, THEN mp, OF p1, THEN conjunct2]
  note c2 = getCandidateMappings_count [of "[1, 2, 3, 4, 5 :: nat]" "''pentagon''",
      THEN conjunct2, THEN conjunct1, THEN mp, OF p2, THEN conjunct2]
  note c3 = getCandidateMappings_count [of "[7, 8 :: nat]" "''square''",
      THEN conjunct1, THEN mp, OF p3, THEN conjunct1]
  have e1: "map (\<lambda>k. rotate k [1, 2, 3 :: nat]) [0..<length [1, 2, 3 :: nat]]
          @ map (\<lambda>k. rotate k (rev [1, 2, 3 :: nat])) [0..<length [1, 2, 3 :: nat]]
        = [[1, 2, 3], [2, 3, 1], [3, 1, 2], [3, 2, 1], [2, 1, 3], [1, 3, 2]]"
    by code_simp
  have e2: "map (\<lambda>k. rotate k [1, 2, 3, 4, 5 :: nat]) [0..<length [1, 2, 3, 4, 5 :: nat]]
        = [[1, 2, 3, 4, 5], [2, 3, 4, 5, 1], [3, 4, 5, 1, 2], [4, 5, 1, 2, 3], [5, 1, 2, 3, 4]]"
    by code_simp
  have e3: "2 * length [7, 8 :: nat] = 4"
    by simp
  show ?thesis
    using c1 c2 c3 by (simp only: e1 e2 e3 simp_thms)
qed

section \<open>Properties of the projection and of the residual loops\<close>

lemma w_eps_pos: "0 < w_eps"
  by (simp add: w_eps_def)

lemma clamp_w_lower: "w_eps \<le> \<bar>clamp_w w\<bar>"
  using w_eps_pos by (simp add: clamp_w_def)

lemma clamp_w_nonzero: "clamp_w w \<noteq> 0"
  using clamp_w_lower [of w] w_eps_pos by auto

lemma project_point_total:
  "project_point H_params scale cos_theta sin_theta t_x t_y p =
     Inr (projected_vertex H_params scale cos_theta sin_theta t_x t_y p)"
  by (simp add: project_point_def projected_vertex_def checked_div_def Let_def clamp_w_nonzero)

lemma project_model_points_total:
  "project_model_points H_params scale cos_theta sin_theta t_x t_y ps =
     Inr (map (projected_vertex H_params scale cos_theta sin_theta t_x t_y) ps)"
  by (induction ps) (simp_all add: project_point_total)

lemma write_residuals_length:
  "length qs \<le> length cs \<Longrightarrow> \<exists>rs. write_residuals ws qs cs = Inr rs \<and> length rs = 2 * length qs
     \<and> (\<forall>i < length qs. rs ! (2 * i) = ws * (px (qs ! i) - px (cs ! i))
                        \<and> rs ! (2 * i + 1) = ws * (py (qs ! i) - py (cs ! i)))"
proof (induction ws qs cs rule: write_residuals.induct)
  case (3 ws q qs c cs)
  then obtain rs where rs: "write_residuals ws qs cs = Inr rs" "length rs = 2 * length qs"
    "\<forall>i < length qs. rs ! (2 * i) = ws * (px (qs ! i) - px (cs ! i))
                        \<and> rs ! (2 * i + 1) = ws * (py (qs ! i) - py (cs ! i))"
    by auto
  show ?case
  proof (intro exI conjI allI impI)
    show "write_residuals ws (q # qs) (c # cs) = Inr (ws * (px q - px c) # ws * (py q - py c) # rs)"
      by (simp add: rs)
    show "length (ws * (px q - px c) # ws * (py q - py c) # rs) = 2 * length (q # qs)"
      by (simp add: rs)
  next
    fix i assume "i < length (q # qs)"
    then show "(ws * (px q - px c) # ws * (py q - py c) # rs) ! (2 * i) = ws * (px ((q # qs) ! i) - px ((c # cs) ! i))"
      using rs(3) by (cases i) simp_all
  next
    fix i assume "i < length (q # qs)"
    then show "(ws * (px q - px c) # ws * (py q - py c) # rs) ! (2 * i + 1) = ws * (py ((q # qs) ! i) - py ((c # cs) ! i))"
      using rs(3) by (cases i) simp_all
  qed
qed simp_all

lemma zero_residuals_replicate: "zero_residuals ps = replicate (2 * length ps) 0"
  by (induction ps) simp_all

lemma write_residuals_no_div: "write_residuals ws qs cs \<noteq> Inl DivisionByZero"
  by (induction ws qs cs rule: write_residuals.induct) (auto split: sum.splits)

section \<open>Properties of the residual evaluation\<close>

lemma candidate_cost_total:
  "length qs \<le> length cs \<Longrightarrow> \<exists>v. candidate_cost ws fs qs cs acc = Inr v"
  by (induction ws fs qs cs acc rule: candidate_cost.induct) simp_all

lemma candidate_cost_no_div: "candidate_cost ws fs qs cs acc \<noteq> Inl DivisionByZero"
  by (induction ws fs qs cs acc rule: candidate_cost.induct) simp_all

lemma search_candidates_index:
  assumes "\<forall>c \<in> set cands. length projected \<le> length c"
  shows "\<exists>r. search_candidates ws fs projected cands k m b = Inr r
           \<and> (r = b \<or> (\<exists>j < length cands. r = int (k + j)))"
  using assms
proof (induction cands arbitrary: k m b)
  case Nil
  then show ?case by simp
next
  case (Cons cand rest)
  from Cons.prems have "length projected \<le> length cand" by simp
  from candidate_cost_total [OF this, of ws fs "Finite 0"]
  obtain v where v: "candidate_cost ws fs projected cand (Finite 0) = Inr v" by blast
  have rest: "\<forall>c \<in> set rest. length projected \<le> length c"
    using Cons.prems by simp
  show ?case
  proof (cases "s_lt v m")
    case True
    from Cons.IH [OF rest, of "Suc k" v "int k"]
    obtain r where r: "search_candidates ws fs projected rest (Suc k) v (int k) = Inr r"
      and alt: "r = int k \<or> (\<exists>j < length rest. r = int (Suc k + j))"
      by blast
    have eq: "search_candidates ws fs projected (cand # rest) k m b = Inr r"
      using True v r by simp
    from alt have "\<exists>j < length (cand # rest). r = int (k + j)"
    proof
      assume "r = int k"
      then have "0 < length (cand # rest) \<and> r = int (k + 0)" by simp
      then show ?thesis by blast
    next
      assume "\<exists>j < length rest. r = int (Suc k + j)"
      then obtain j where "j < length rest" "r = int (Suc k + j)" by blast
      then have "Suc j < length (cand # rest) \<and> r = int (k + Suc j)" by simp
      then show ?thesis by blast
    qed
    with eq show ?thesis by blast
  next
    case False
    from Cons.IH [OF rest, of "Suc k" m b]
    obtain r where r: "search_candidates ws fs projected rest (Suc k) m b = Inr r"
      and alt: "r = b \<or> (\<exists>j < length rest. r = int (Suc k + j))"
      by blast
    have eq: "search_candidates ws fs projected (cand # rest) k m b = Inr r"
      using False v r by simp
    from alt have "r = b \<or> (\<exists>j < length (cand # rest). r = int (k + j))"
    proof
      assume "r = b"
      then show ?thesis by simp
    next
      assume "\<exists>j < length rest. r = int (Suc k + j)"
      then obtain j where "j < length rest" "r = int (Suc k + j)" by blast
      then have "Suc j < length (cand # rest) \<and> r = int (k + Suc j)" by simp
      then show ?thesis by blast
    qed
    with eq show ?thesis by blast
  qed
qed

lemma search_candidates_no_div:
  "search_candidates ws fs projected cands k m b \<noteq> Inl DivisionByZero"
proof (induction cands arbitrary: k m b)
  case Nil
  then show ?case by simp
next
  case (Cons cand rest)
  then show ?case
    using candidate_cost_no_div [of ws fs projected cand "Finite 0"]
    by (cases "candidate_cost ws fs projected cand (Finite 0)") auto
qed

lemma evaluate_unfold:
  "evaluate F H_params scale_param pose_params =
     (case search_candidates (weight_sqrt F) (f_scale F)
             (projected_points F H_params scale_param pose_params)
             (getCandidateMappings (detected_points F) (shape_type F)) 0 (Finite DBL_MAX) (- 1) of
        Inl e \<Rightarrow> Inl e
      | Inr best_candidate_idx \<Rightarrow>
          if best_candidate_idx \<noteq> - 1
          then write_residuals (weight_sqrt F) (projected_points F H_params scale_param pose_params)
                 (getCandidateMappings (detected_points F) (shape_type F) ! nat best_candidate_idx)
          else Inr (zero_residuals (model_points F)))"
  unfolding evaluate_def Let_def project_model_points_total projected_points_def
  by (simp only: sum.case)

lemma length_projected_points [simp]:
  "length (projected_points F H_params scale_param pose_params) = length (model_points F)"
  by (simp add: projected_points_def)

text \<open>
  Claim C7. For the empty list of detected points \<open>getCandidateMappings\<close> returns the empty
  candidate set, and the evaluation then writes zero into every residual slot (two per model
  vertex) and returns success.
\<close>

theorem evaluate_unobserved:
  "getCandidateMappings ([] :: Point2 list) shape = []
   \<and> (detected_points F = [] \<longrightarrow>
        evaluate F H_params scale_param pose_params
          = Inr (replicate (2 * length (model_points F)) 0))"
  by (simp add: evaluate_unfold zero_residuals_replicate)

text \<open>
  Claim C6. For all H, scale and pose parameter values, the perspective denominator is never
  used as a divisor when its magnitude is below \<open>1e-8\<close>: the divisor of both quotients is the
  clamped value, of magnitude at least \<open>1e-8\<close>, equal to \<open>1e-8\<close> whenever the raw
  denominator is smaller in magnitude. So the projection never divides by zero, the
  evaluation never ends in a division by zero, and it returns success with its residual
  block of two values per model vertex, whatever the functor's \<open>f_scale\<close>, whenever the
  detected polygon is empty or has at least as many vertices as the model.
\<close>

theorem evaluate_total:
  "(\<forall>p_model.
      w_eps \<le> \<bar>clamp_w (raw_w H_params
                 (plane_point (scale_param 0) (cos (pose_params 0)) (sin (pose_params 0))
                    (pose_params 1) (pose_params 2) p_model))\<bar>
      \<and> (\<bar>raw_w H_params
                 (plane_point (scale_param 0) (cos (pose_params 0)) (sin (pose_params 0))
                    (pose_params 1) (pose_params 2) p_model)\<bar> < w_eps \<longrightarrow>
         clamp_w (raw_w H_params
                 (plane_point (scale_param 0) (cos (pose_params 0)) (sin (pose_params 0))
                    (pose_params 1) (pose_params 2) p_model)) = w_eps)
      \<and> project_point H_params (scale_param 0) (cos (pose_params 0)) (sin (pose_params 0))
             (pose_params 1) (pose_params 2) p_model
          = Inr (projected_vertex H_params (scale_param 0) (cos (pose_params 0))
                   (sin (pose_params 0)) (pose_params 1) (pose_params 2) p_model))
   \<and> project_model_points H_params (scale_param 0) (cos (pose_params 0)) (sin (pose_params 0))
         (pose_params 1) (pose_params 2) (model_points F)
       = Inr (projected_points F H_params scale_param pose_params)
   \<and> evaluate F H_params scale_param pose_params \<noteq> Inl DivisionByZero
   \<and> (detected_points F = [] \<or> length (model_points F) \<le> length (detected_points F) \<longrightarrow>
        (\<exists>rs. evaluate F H_params scale_param pose_params = Inr rs
              \<and> length rs = 2 * length (model_points F)))"
proof (intro conjI allI impI)
  fix p_model
  show "project_point H_params (scale_param 0) (cos (pose_params 0)) (sin (pose_params 0))
             (pose_params 1) (pose_params 2) p_model
          = Inr (projected_vertex H_params (scale_param 0) (cos (pose_params 0))
                   (sin (pose_params 0)) (pose_params 1) (pose_params 2) p_model)"
    by (rule project_point_total)
next
  show "project_model_points H_params (scale_param 0) (cos (pose_params 0)) (sin (pose_params 0))
         (pose_params 1) (pose_params 2) (model_points F)
       = Inr (projected_points F H_params scale_param pose_params)"
    by (simp add: project_model_points_total projected_points_def)
next
  show "evaluate F H_params scale_param pose_params \<noteq> Inl DivisionByZero"
  proof (cases "search_candidates (weight_sqrt F) (f_scale F)
             (projected_points F H_params scale_param pose_params)
             (getCandidateMappings (detected_points F) (shape_type F)) 0 (Finite DBL_MAX) (- 1)")
    case (Inl e)
    then have "e \<noteq> DivisionByZero"
      using search_candidates_no_div by metis
    then show ?thesis using Inl by (simp add: evaluate_unfold)
  next
    case (Inr r)
    then show ?thesis using write_residuals_no_div by (simp add: evaluate_unfold)
  qed
next
  assume a: "detected_points F = [] \<or> length (model_points F) \<le> length (detected_points F)"
  let ?cands = "getCandidateMappings (detected_points F) (shape_type F)"
  let ?proj = "projected_points F H_params scale_param pose_params"
  have lens: "\<forall>c \<in> set ?cands. length ?proj \<le> length c"
    using a by (auto simp: getCandidateMappings_lengths)
  from search_candidates_index [OF lens, of "weight_sqrt F" "f_scale F" 0 "Finite DBL_MAX" "- 1"]
  obtain r where r: "search_candidates (weight_sqrt F) (f_scale F) ?proj ?cands 0 (Finite DBL_MAX) (- 1) = Inr r"
    and alt: "r = - 1 \<or> (\<exists>j < length ?cands. r = int (0 + j))"
    by blast
  from alt show "\<exists>rs. evaluate F H_params scale_param pose_params = Inr rs
              \<and> length rs = 2 * length (model_points F)"
  proof
    assume "r = - 1"
    then show ?thesis using r
      by (simp add: evaluate_unfold zero_residuals_replicate)
  next
    assume "\<exists>j < length ?cands. r = int (0 + j)"
    then obtain j where j: "j < length ?cands" "r = int j" by auto
    have "length ?proj \<le> length (?cands ! j)"
      using lens j(1) by simp
    from write_residuals_length [OF this, of "weight_sqrt F"]
    obtain rs where rs: "write_residuals (weight_sqrt F) ?proj (?cands ! j) = Inr rs"
      "length rs = 2 * length ?proj"
      by blast
    then show ?thesis using r j(2)
      by (simp add: evaluate_unfold)
  qed
qed (simp_all add: clamp_w_lower clamp_w_def)

section \<open>Evaluations of the correspondence search at concrete inputs\<close>

lemma DBL_MAX_pos: "0 < DBL_MAX"
  by (simp add: DBL_MAX_def)

lemma clamp_w_one [simp]: "clamp_w 1 = 1"
  by (simp add: clamp_w_def w_eps_def)

lemma projected_vertex_identity:
  "projected_vertex identity_H 1 1 0 a b p = \<lparr>px = px p + a, py = py p + b\<rparr>"
  by (simp add: projected_vertex_def plane_point_def raw_w_def numerator_x_def numerator_y_def
      identity_H_def Let_def)

lemma segment_projected:
  "projected_points segment_functor identity_H unit_scale zero_pose
     = [\<lparr>px = 0, py = 0\<rparr>, \<lparr>px = 1, py = 0\<rparr>]"
  by (simp add: projected_points_def segment_functor_def unit_scale_def zero_pose_def
      projected_vertex_identity)

lemma segment_candidates:
  "getCandidateMappings (detected_points segment_functor) (shape_type segment_functor)
     = [[\<lparr>px = 1, py = 0\<rparr>, \<lparr>px = 0, py = 3\<rparr>], [\<lparr>px = 0, py = 3\<rparr>, \<lparr>px = 1, py = 0\<rparr>]]"
  by (simp add: segment_functor_def getCandidateMappings_def admits_reflection_def
      cyclic_shifts_def std_rotate_def Let_def)

lemma sqrt_9: "sqrt 9 = 3"
  using real_sqrt_abs2 [of 3] by simp

lemma far_offset_gt: "1 < far_offset"
  by (simp add: far_offset_def)

lemma far_projected:
  "projected_points single_point_functor identity_H unit_scale far_pose = [\<lparr>px = far_offset, py = 0\<rparr>]"
  by (simp add: projected_points_def single_point_functor_def unit_scale_def far_pose_def
      projected_vertex_identity)

lemma single_candidates:
  "getCandidateMappings (detected_points single_point_functor) (shape_type single_point_functor)
     = [[\<lparr>px = 0, py = 0\<rparr>]]"
  by (simp add: single_point_functor_def getCandidateMappings_def admits_reflection_def
      cyclic_shifts_def std_rotate_def Let_def)

lemma DBL_MAX_large: "1000 \<le> DBL_MAX"
  by (simp add: DBL_MAX_def)

lemma to_scalar_Finite: "- DBL_MAX \<le> v \<Longrightarrow> v \<le> DBL_MAX \<Longrightarrow> to_scalar v = Finite v"
  by (simp add: to_scalar_def)

lemma to_scalar_small [simp]: "\<bar>v\<bar> \<le> 1000 \<Longrightarrow> to_scalar v = Finite v"
  using DBL_MAX_large by (intro to_scalar_Finite) linarith+

lemma to_scalar_PosInf: "DBL_MAX < v \<Longrightarrow> to_scalar v = PosInf"
  by (simp add: to_scalar_def)

lemma huber_d_special [simp]:
  "huber_d PosInf = PosInf" "huber_d NaN = NaN" "huber_d (Finite 0) = Finite 0"
  by (simp_all add: huber_d_def s_sub_def inf_of_sign_def)

text \<open>
  On a finite argument within the double range the lambda on doubles is the real-valued
  lambda: no step of it leaves the range.
\<close>

lemma sqrt_DBL_MAX: "s2 \<le> DBL_MAX \<Longrightarrow> 0 \<le> s2 \<Longrightarrow> sqrt s2 \<le> 2 ^ 512"
proof -
  assume a: "s2 \<le> DBL_MAX" "0 \<le> s2"
  have "DBL_MAX \<le> (2 ^ 512)\<^sup>2"
    by (simp add: DBL_MAX_def)
  with a have "s2 \<le> (2 ^ 512)\<^sup>2" by linarith
  then show ?thesis
    by (rule real_le_lsqrt[rotated 1]) simp
qed

lemma huber_d_Finite:
  assumes "0 \<le> s2" "s2 \<le> DBL_MAX"
  shows "huber_d (Finite s2) = Finite (huber s2)"
proof (cases "s2 \<le> 1")
  case True
  then show ?thesis by (simp add: huber_d_def huber_def)
next
  case False
  have r: "0 \<le> sqrt s2" "sqrt s2 \<le> 2 ^ 512"
    using assms sqrt_DBL_MAX by simp_all
  have big: "(2::real) * 2 ^ 512 \<le> DBL_MAX"
    by (simp add: DBL_MAX_def)
  have m: "to_scalar (2 * sqrt s2) = Finite (2 * sqrt s2)"
    using r big DBL_MAX_pos by (intro to_scalar_Finite) linarith+
  have lo: "- DBL_MAX \<le> 2 * sqrt s2 + - 1"
    using r DBL_MAX_large by linarith
  have hi: "2 * sqrt s2 + - 1 \<le> DBL_MAX"
    using r big by linarith
  have s: "to_scalar (2 * sqrt s2 - 1) = Finite (2 * sqrt s2 - 1)"
    using to_scalar_Finite [OF lo hi] by simp
  show ?thesis
    using False assms by (simp add: huber_d_def huber_def s_sub_def m s)
qed

lemma segment_cost_terms:
  "cost_term 1 1 \<lparr>px = 0, py = 0\<rparr> \<lparr>px = 1, py = 0\<rparr> = Finite 1"
  "cost_term 1 1 \<lparr>px = 1, py = 0\<rparr> \<lparr>px = 0, py = 3\<rparr> = Finite 6"
  "cost_term 1 1 \<lparr>px = 0, py = 0\<rparr> \<lparr>px = 0, py = 3\<rparr> = Finite 5"
  "cost_term 1 1 \<lparr>px = 1, py = 0\<rparr> \<lparr>px = 1, py = 0\<rparr> = Finite 0"
  by (simp_all add: cost_term_def s_sub_def huber_d_def sqrt_9)

lemma segment_evaluate:
  "evaluate segment_functor identity_H unit_scale zero_pose = Inr [0, - 3, 0, 0]"
proof -
  have ws: "weight_sqrt segment_functor = 1" "f_scale segment_functor = 1"
    by (simp_all add: segment_functor_def)
  have big: "(5::real) < DBL_MAX"
    by (simp add: DBL_MAX_def)
  have best: "search_candidates 1 1 [\<lparr>px = 0, py = 0\<rparr>, \<lparr>px = 1, py = 0\<rparr>]
      [[\<lparr>px = 1, py = 0\<rparr>, \<lparr>px = 0, py = 3\<rparr>], [\<lparr>px = 0, py = 3\<rparr>, \<lparr>px = 1, py = 0\<rparr>]]
      0 (Finite DBL_MAX) (- 1) = Inr 1"
    using big by (simp add: segment_cost_terms)
  show ?thesis
    unfolding evaluate_unfold segment_projected segment_candidates ws best
    by simp
qed

lemma cost_term_overflow:
  assumes "1 \<le> t" "t \<le> DBL_MAX" "DBL_MAX < t * t"
  shows "cost_term 1 1 \<lparr>px = t, py = 0\<rparr> \<lparr>px = 0, py = 0\<rparr> = PosInf"
proof -
  have f: "to_scalar t = Finite t"
    using assms DBL_MAX_pos by (intro to_scalar_Finite) linarith+
  have o: "to_scalar (t * t) = PosInf"
    using assms by (intro to_scalar_PosInf)
  show ?thesis
    by (simp add: cost_term_def s_sub_def f o)
qed

lemma evaluate_overflow:
  assumes "1 \<le> t" "t \<le> DBL_MAX" "DBL_MAX < t * t"
    and "projected_points single_point_functor identity_H unit_scale pose = [\<lparr>px = t, py = 0\<rparr>]"
  shows "evaluate single_point_functor identity_H unit_scale pose = Inr [0, 0]"
proof -
  have ws: "weight_sqrt single_point_functor = 1" "f_scale single_point_functor = 1"
    "model_points single_point_functor = [\<lparr>px = 0, py = 0\<rparr>]"
    by (simp_all add: single_point_functor_def)
  have best: "search_candidates 1 1 [\<lparr>px = t, py = 0\<rparr>] [[\<lparr>px = 0, py = 0\<rparr>]] 0 (Finite DBL_MAX) (- 1)
      = Inr (- 1)"
    by (simp add: cost_term_overflow [OF assms(1-3)])
  show ?thesis
    unfolding evaluate_unfold assms(4) single_candidates ws best
    by simp
qed

lemma far_offset_range: "far_offset \<le> DBL_MAX" "DBL_MAX < far_offset * far_offset"
  by (simp_all add: far_offset_def DBL_MAX_def)

lemma overflow_offset_range:
  "1 \<le> overflow_offset" "overflow_offset \<le> DBL_MAX" "DBL_MAX < overflow_offset * overflow_offset"
  by (simp_all add: overflow_offset_def DBL_MAX_def)

lemma overflow_projected:
  "projected_points single_point_functor identity_H unit_scale overflow_pose
     = [\<lparr>px = overflow_offset, py = 0\<rparr>]"
  by (simp add: projected_points_def single_point_functor_def unit_scale_def overflow_pose_def
      projected_vertex_identity)

text \<open>
  Claim C3. For a non-empty candidate set the residual block handed to the optimizer is to
  be the plain weighted deltas of the minimum-cost candidate. The code misses the case in
  which no candidate's cost compares below the initial \<^verbatim>\<open>min_cost\<close>, \<open>DBL_MAX\<close>: with one
  model vertex, one detected vertex at the origin and the translation \<open>2^1023\<close>, the only
  candidate has the weighted delta \<open>2^1023\<close> in x, the square of its normalized delta
  overflows, its cost is \<open>+inf\<close>, the comparison \<^verbatim>\<open>cost < min_cost\<close> fails,
  \<^verbatim>\<open>best_candidate_idx\<close> stays \<open>-1\<close> and the zero block is written.
\<close>

theorem evaluate_sentinel_zero_block:
  "getCandidateMappings (detected_points single_point_functor) (shape_type single_point_functor)
     = [[\<lparr>px = 0, py = 0\<rparr>]]
   \<and> projected_points single_point_functor identity_H unit_scale far_pose
     = [\<lparr>px = far_offset, py = 0\<rparr>]
   \<and> weight_sqrt single_point_functor * (far_offset - 0) > 1
   \<and> cost_term (weight_sqrt single_point_functor) (f_scale single_point_functor)
        \<lparr>px = far_offset, py = 0\<rparr> \<lparr>px = 0, py = 0\<rparr> = PosInf
   \<and> evaluate single_point_functor identity_H unit_scale far_pose = Inr [0, 0]"
proof -
  have ws: "weight_sqrt single_point_functor = 1" "f_scale single_point_functor = 1"
    by (simp_all add: single_point_functor_def)
  have one: "1 \<le> far_offset" using far_offset_gt by simp
  note c = cost_term_overflow [OF one far_offset_range]
  note e = evaluate_overflow [OF one far_offset_range far_projected]
  show ?thesis
    using far_offset_gt c e by (simp add: far_projected single_candidates ws)
qed

text \<open>
  The same at the translation \<open>2^512\<close>, where the real value of the cost, \<open>2^513 - 1\<close>, is
  below \<open>DBL_MAX\<close> and only the overflow of the square makes the cost infinite.
\<close>

lemma evaluate_overflow_512:
  "evaluate single_point_functor identity_H unit_scale overflow_pose = Inr [0, 0]"
  by (rule evaluate_overflow [OF overflow_offset_range overflow_projected])

lemma zero_f_scale_cost_terms:
  "cost_term 1 0 \<lparr>px = 0, py = 0\<rparr> \<lparr>px = 1, py = 0\<rparr> = NaN"
  "cost_term 1 0 \<lparr>px = 0, py = 0\<rparr> \<lparr>px = 0, py = 3\<rparr> = NaN"
  by (simp_all add: cost_term_def s_sub_def inf_of_sign_def)

text \<open>
  With \<open>f_scale = 0\<close> the normalized deltas are infinite or NaN, every cost is NaN, no
  candidate is selected, and the evaluation returns success with the zero block.
\<close>

lemma evaluate_zero_f_scale:
  "evaluate zero_f_scale_functor identity_H unit_scale zero_pose = Inr [0, 0, 0, 0]"
proof -
  have f: "f_scale zero_f_scale_functor = 0" "weight_sqrt zero_f_scale_functor = 1"
    "detected_points zero_f_scale_functor = detected_points segment_functor"
    "shape_type zero_f_scale_functor = shape_type segment_functor"
    "model_points zero_f_scale_functor = [\<lparr>px = 0, py = 0\<rparr>, \<lparr>px = 1, py = 0\<rparr>]"
    by (simp_all add: zero_f_scale_functor_def segment_functor_def)
  have p: "projected_points zero_f_scale_functor identity_H unit_scale zero_pose
      = [\<lparr>px = 0, py = 0\<rparr>, \<lparr>px = 1, py = 0\<rparr>]"
    using segment_projected
    by (simp add: projected_points_def zero_f_scale_functor_def)
  have best: "search_candidates 1 0 [\<lparr>px = 0, py = 0\<rparr>, \<lparr>px = 1, py = 0\<rparr>]
      [[\<lparr>px = 1, py = 0\<rparr>, \<lparr>px = 0, py = 3\<rparr>], [\<lparr>px = 0, py = 3\<rparr>, \<lparr>px = 1, py = 0\<rparr>]]
      0 (Finite DBL_MAX) (- 1) = Inr (- 1)"
    by (simp add: zero_f_scale_cost_terms)
  show ?thesis
    unfolding evaluate_unfold p f segment_candidates best
    by simp
qed

section \<open>The robust cost and the denominator clamp\<close>

text \<open>
  Claim C2. The per-term robust cost of the correspondence search: for a squared normalized
  residual \<open>s2 \<le> 1\<close> the output equals \<open>s2\<close>, for \<open>s2 > 1\<close> it equals \<open>2 * sqrt s2 - 1\<close>; the
  two formulas agree at \<open>s2 = 1\<close>, and the function is continuous there.
\<close>

theorem huber_piecewise:
  "(s2 \<le> 1 \<longrightarrow> huber s2 = s2)
   \<and> (1 < s2 \<longrightarrow> huber s2 = 2 * sqrt s2 - 1)
   \<and> (1 :: real) = 2 * sqrt 1 - 1
   \<and> isCont huber 1"
proof (intro conjI impI)
  have "isCont (\<lambda>t. if t \<le> 1 then t else 2 * sqrt t - 1) (1 :: real)"
  proof (rule isCont_If_ge)
    show "continuous (at_left (1 :: real)) (\<lambda>t. t)"
      by (rule continuous_ident)
    have "((\<lambda>t :: real. 2 * sqrt t - 1) \<longlongrightarrow> 2 * sqrt 1 - 1) (at_right 1)"
      by (intro tendsto_intros)
    then show "((\<lambda>t :: real. 2 * sqrt t - 1) \<longlongrightarrow> 1) (at_right 1)"
      by simp
  qed
  moreover have "huber = (\<lambda>t. if t \<le> 1 then t else 2 * sqrt t - 1)"
    by (rule ext) (simp add: huber_def)
  ultimately show "isCont huber 1" by simp
qed (simp_all add: huber_def)

theorem huber_piecewise_witness:
  "(1 / 4 :: real) \<le> 1 \<and> huber (1 / 4) = 1 / 4 \<and> (1 :: real) < 9 \<and> huber 9 = 5"
  using huber_piecewise [of "1 / 4"] huber_piecewise [of 9] by (simp add: sqrt_9)

text \<open>
  Claim C10. The clamp of the perspective denominator is one-sided in sign: whenever
  \<open>\<bar>w\<bar> < 1e-8\<close> the divisor is \<open>+1e-8\<close>, whatever the sign of \<open>w\<close>. For a vertex whose
  denominator is a small negative value the projected x and y are the numerators divided by
  \<open>+1e-8\<close>, so their signs are opposite to those of the unclamped quotients; the clamp
  bounds the magnitude of the divisor and does not preserve its sign.
\<close>

theorem clamp_one_sided:
  "(\<bar>w\<bar> < w_eps \<longrightarrow> clamp_w w = w_eps \<and> 0 < clamp_w w)
   \<and> w_eps \<le> \<bar>clamp_w w\<bar>
   \<and> (- w_eps < raw_w H_params (plane_point scale cos_theta sin_theta t_x t_y p_model)
        \<and> raw_w H_params (plane_point scale cos_theta sin_theta t_x t_y p_model) < 0 \<longrightarrow>
      (\<exists>q. project_point H_params scale cos_theta sin_theta t_x t_y p_model = Inr q
         \<and> px q = numerator_x H_params (plane_point scale cos_theta sin_theta t_x t_y p_model) / w_eps
         \<and> py q = numerator_y H_params (plane_point scale cos_theta sin_theta t_x t_y p_model) / w_eps
         \<and> sgn (px q) =
             - sgn (numerator_x H_params (plane_point scale cos_theta sin_theta t_x t_y p_model)
                    / raw_w H_params (plane_point scale cos_theta sin_theta t_x t_y p_model))
         \<and> sgn (py q) =
             - sgn (numerator_y H_params (plane_point scale cos_theta sin_theta t_x t_y p_model)
                    / raw_w H_params (plane_point scale cos_theta sin_theta t_x t_y p_model))
         \<and> sgn (clamp_w (raw_w H_params (plane_point scale cos_theta sin_theta t_x t_y p_model)))
             = - sgn (raw_w H_params (plane_point scale cos_theta sin_theta t_x t_y p_model))))"
proof -
  let ?plane = "plane_point scale cos_theta sin_theta t_x t_y p_model"
  have p1: "\<bar>w\<bar> < w_eps \<longrightarrow> clamp_w w = w_eps \<and> 0 < clamp_w w"
    using w_eps_pos by (simp add: clamp_w_def)
  have p2: "w_eps \<le> \<bar>clamp_w w\<bar>" by (rule clamp_w_lower)
  have p3: "\<exists>q. project_point H_params scale cos_theta sin_theta t_x t_y p_model = Inr q
         \<and> px q = numerator_x H_params ?plane / w_eps
         \<and> py q = numerator_y H_params ?plane / w_eps
         \<and> sgn (px q) = - sgn (numerator_x H_params ?plane / raw_w H_params ?plane)
         \<and> sgn (py q) = - sgn (numerator_y H_params ?plane / raw_w H_params ?plane)
         \<and> sgn (clamp_w (raw_w H_params ?plane)) = - sgn (raw_w H_params ?plane)"
    if a: "- w_eps < raw_w H_params ?plane \<and> raw_w H_params ?plane < 0"
  proof -
    from a have c: "clamp_w (raw_w H_params ?plane) = w_eps"
      by (simp add: clamp_w_def)
    have neg: "sgn (raw_w H_params ?plane) = - 1"
      using a by simp
    have pos: "sgn w_eps = 1"
      using w_eps_pos by simp
    have "project_point H_params scale cos_theta sin_theta t_x t_y p_model
        = Inr \<lparr>px = numerator_x H_params ?plane / w_eps, py = numerator_y H_params ?plane / w_eps\<rparr>"
      by (simp add: project_point_total projected_vertex_def Let_def c)
    then show ?thesis
      by (simp add: c sgn_divide neg pos)
  qed
  from p1 p2 p3 show ?thesis by blast
qed

lemma near_singular_raw_w:
  "raw_w near_singular_H (plane_point 1 1 0 0 0 \<lparr>px = 1, py = 0\<rparr>) = - (1 / 1000000000)"
  by (simp add: raw_w_def plane_point_def near_singular_H_def Let_def)

theorem evaluate_unobserved_witness:
  "detected_points unobserved_functor = []
   \<and> evaluate unobserved_functor identity_H unit_scale zero_pose = Inr [0, 0, 0, 0, 0, 0]"
proof -
  have d: "detected_points unobserved_functor = []"
    by (simp add: unobserved_functor_def)
  have m: "replicate (2 * length (model_points unobserved_functor)) (0::real) = [0, 0, 0, 0, 0, 0]"
    by (simp add: unobserved_functor_def numeral_eq_Suc)
  from evaluate_unobserved [of "''triangle''" unobserved_functor identity_H unit_scale zero_pose] d
  have "evaluate unobserved_functor identity_H unit_scale zero_pose
      = Inr (replicate (2 * length (model_points unobserved_functor)) 0)"
    by (simp only: simp_thms)
  then show ?thesis using d by (simp only: m simp_thms)
qed

theorem clamp_one_sided_witness:
  "\<bar>- (1 / 1000000000) :: real\<bar> < w_eps
   \<and> clamp_w (- (1 / 1000000000)) = w_eps
   \<and> - w_eps < raw_w near_singular_H (plane_point 1 1 0 0 0 \<lparr>px = 1, py = 0\<rparr>)
   \<and> raw_w near_singular_H (plane_point 1 1 0 0 0 \<lparr>px = 1, py = 0\<rparr>) < 0
   \<and> project_point near_singular_H 1 1 0 0 0 \<lparr>px = 1, py = 0\<rparr> = Inr \<lparr>px = 100000000, py = 0\<rparr>
   \<and> numerator_x near_singular_H (plane_point 1 1 0 0 0 \<lparr>px = 1, py = 0\<rparr>)
        / raw_w near_singular_H (plane_point 1 1 0 0 0 \<lparr>px = 1, py = 0\<rparr>) = - 1000000000"
proof -
  have h0: "\<bar>- (1 / 1000000000) :: real\<bar> < w_eps"
    by (simp add: w_eps_def)
  have h1: "- w_eps < raw_w near_singular_H (plane_point 1 1 0 0 0 \<lparr>px = 1, py = 0\<rparr>)
      \<and> raw_w near_singular_H (plane_point 1 1 0 0 0 \<lparr>px = 1, py = 0\<rparr>) < 0"
    unfolding near_singular_raw_w by (simp add: w_eps_def)
  have n: "numerator_x near_singular_H (plane_point 1 1 0 0 0 \<lparr>px = 1, py = 0\<rparr>) = 1"
    "numerator_y near_singular_H (plane_point 1 1 0 0 0 \<lparr>px = 1, py = 0\<rparr>) = 0"
    by (simp_all add: numerator_x_def numerator_y_def plane_point_def near_singular_H_def Let_def)
  note t = clamp_one_sided [where w = "- (1 / 1000000000)" and H_params = near_singular_H
      and scale = 1 and cos_theta = 1 and sin_theta = 0 and t_x = 0 and t_y = 0
      and p_model = "\<lparr>px = 1, py = 0\<rparr>"]
  from t h0 have c0: "clamp_w (- (1 / 1000000000)) = w_eps"
    by (simp only: simp_thms)
  note t3 = t [THEN conjunct2, THEN conjunct2, THEN mp, OF h1]
  from t3 obtain q where q: "project_point near_singular_H 1 1 0 0 0 \<lparr>px = 1, py = 0\<rparr> = Inr q"
    "px q = numerator_x near_singular_H (plane_point 1 1 0 0 0 \<lparr>px = 1, py = 0\<rparr>) / w_eps"
    "py q = numerator_y near_singular_H (plane_point 1 1 0 0 0 \<lparr>px = 1, py = 0\<rparr>) / w_eps"
    by blast
  have "q = \<lparr>px = 100000000, py = 0\<rparr>"
    using q(2,3) by (cases q) (simp add: n w_eps_def)
  with q(1) have c1: "project_point near_singular_H 1 1 0 0 0 \<lparr>px = 1, py = 0\<rparr>
      = Inr \<lparr>px = 100000000, py = 0\<rparr>"
    by simp
  have c2: "numerator_x near_singular_H (plane_point 1 1 0 0 0 \<lparr>px = 1, py = 0\<rparr>)
        / raw_w near_singular_H (plane_point 1 1 0 0 0 \<lparr>px = 1, py = 0\<rparr>) = - 1000000000"
    by (simp add: n near_singular_raw_w)
  show ?thesis
    using h0 c0 h1 c1 c2 by (intro conjI) simp_all
qed

theorem evaluate_total_witness:
  "\<bar>raw_w near_singular_H
       (plane_point (unit_scale 0) (cos (zero_pose 0)) (sin (zero_pose 0))
          (zero_pose 1) (zero_pose 2) \<lparr>px = 1, py = 0\<rparr>)\<bar> < w_eps
   \<and> clamp_w (raw_w near_singular_H
       (plane_point (unit_scale 0) (cos (zero_pose 0)) (sin (zero_pose 0))
          (zero_pose 1) (zero_pose 2) \<lparr>px = 1, py = 0\<rparr>)) = w_eps
   \<and> f_scale zero_f_scale_functor = 0
   \<and> length (model_points zero_f_scale_functor) \<le> length (detected_points zero_f_scale_functor)
   \<and> evaluate zero_f_scale_functor near_singular_H unit_scale zero_pose \<noteq> Inl DivisionByZero
   \<and> (\<exists>rs. evaluate zero_f_scale_functor near_singular_H unit_scale zero_pose = Inr rs
          \<and> length rs = 2 * length (model_points zero_f_scale_functor))"
proof -
  have w: "raw_w near_singular_H
       (plane_point (unit_scale 0) (cos (zero_pose 0)) (sin (zero_pose 0))
          (zero_pose 1) (zero_pose 2) \<lparr>px = 1, py = 0\<rparr>) = - (1 / 1000000000)"
    using near_singular_raw_w by (simp add: unit_scale_def zero_pose_def)
  have h0: "\<bar>raw_w near_singular_H
       (plane_point (unit_scale 0) (cos (zero_pose 0)) (sin (zero_pose 0))
          (zero_pose 1) (zero_pose 2) \<lparr>px = 1, py = 0\<rparr>)\<bar> < w_eps"
    unfolding w by (simp add: w_eps_def)
  have h1: "f_scale zero_f_scale_functor = 0"
    by (simp add: zero_f_scale_functor_def)
  have h2: "length (model_points zero_f_scale_functor) \<le> length (detected_points zero_f_scale_functor)"
    by (simp add: zero_f_scale_functor_def segment_functor_def)
  note t = evaluate_total [of near_singular_H unit_scale zero_pose zero_f_scale_functor]
  from t have t1: "\<forall>p_model.
      w_eps \<le> \<bar>clamp_w (raw_w near_singular_H
                 (plane_point (unit_scale 0) (cos (zero_pose 0)) (sin (zero_pose 0))
                    (zero_pose 1) (zero_pose 2) p_model))\<bar>
      \<and> (\<bar>raw_w near_singular_H
                 (plane_point (unit_scale 0) (cos (zero_pose 0)) (sin (zero_pose 0))
                    (zero_pose 1) (zero_pose 2) p_model)\<bar> < w_eps \<longrightarrow>
         clamp_w (raw_w near_singular_H
                 (plane_point (unit_scale 0) (cos (zero_pose 0)) (sin (zero_pose 0))
                    (zero_pose 1) (zero_pose 2) p_model)) = w_eps)
      \<and> project_point near_singular_H (unit_scale 0) (cos (zero_pose 0)) (sin (zero_pose 0))
             (zero_pose 1) (zero_pose 2) p_model
          = Inr (projected_vertex near_singular_H (unit_scale 0) (cos (zero_pose 0))
                   (sin (zero_pose 0)) (zero_pose 1) (zero_pose 2) p_model)"
    by (rule conjunct1)
  from t1 [THEN spec, of "\<lparr>px = 1, py = 0\<rparr>"] h0
  have c1: "clamp_w (raw_w near_singular_H
       (plane_point (unit_scale 0) (cos (zero_pose 0)) (sin (zero_pose 0))
          (zero_pose 1) (zero_pose 2) \<lparr>px = 1, py = 0\<rparr>)) = w_eps"
    by (simp only: simp_thms)
  note c2 = t [THEN conjunct2, THEN conjunct2, THEN conjunct1]
  note c3 = t [THEN conjunct2, THEN conjunct2, THEN conjunct2, THEN mp, OF disjI2, OF h2]
  show ?thesis
    by (intro conjI) (rule h0, rule c1, rule h1, rule h2, rule c2, rule c3)
qed

section \<open>Round trip through the flattened state vector\<close>

lemma length_pose_slot [simp]: "length (pose_slot poses_in i) = 3"
  by (simp add: pose_slot_def split: option.splits)

lemma length_slots [simp]: "length (concat (map (pose_slot poses_in) [0..<n])) = 3 * n"
  by (induction n) simp_all


lemma length_packParamsTracked [simp]:
  "length (packParamsTracked H_in scale_in poses_in n) = 9 + 3 * n"
  by (simp add: packParamsTracked_def)













section \<open>The H-update gate\<close>

lemma gate_step_config [simp]:
  "locking_enabled (gate_step T cand) = locking_enabled T"
  "frames_needed_for_lock (gate_step T cand) = frames_needed_for_lock T"
  "lock_error_threshold (gate_step T cand) = lock_error_threshold T"
  "unlock_error_threshold (gate_step T cand) = unlock_error_threshold T"
  "homography_locked (gate_step T cand) = homography_locked T"
  "locked_H (gate_step T cand) = locked_H T"
  "locked_scale (gate_step T cand) = locked_scale T"
  "frames_stable (gate_step T cand) = frames_stable T"
  by (simp_all add: gate_step_def)

lemma lock_step_config [simp]:
  "locking_enabled (lock_step T err) = locking_enabled T"
  "frames_needed_for_lock (lock_step T err) = frames_needed_for_lock T"
  "lock_error_threshold (lock_step T err) = lock_error_threshold T"
  "unlock_error_threshold (lock_step T err) = unlock_error_threshold T"
  "accepted_H (lock_step T err) = accepted_H T"
  "accepted_scale (lock_step T err) = accepted_scale T"
  by (simp_all add: lock_step_def Let_def)

lemma fst_processFrame: "fst (processFrame T cand) = lock_step (gate_step T cand) (mean_error cand)"
  by (simp add: processFrame_def Let_def)

lemma snd_processFrame:
  "snd (processFrame T cand) = emit_solution (lock_step (gate_step T cand) (mean_error cand)) cand"
  by (simp add: processFrame_def Let_def)

lemma gate_rejected:
  assumes "locking_enabled T"
    and "\<not> improved_enough T cand \<or> h_update_max_norm T \<le> h_update_norm (sol_H cand) (accepted_H T)"
  shows "accepted_H (gate_step T cand) = accepted_H T"
    and "accepted_scale (gate_step T cand) = accepted_scale T"
  using assms by (auto simp: gate_step_def h_update_gate_def)

lemma emit_poses [simp]: "sol_poses (emit_solution T cand) = sol_poses cand"
  by (simp add: emit_solution_def)

text \<open>
  Claim C4, as amended. With locking enabled, for every frame in which the optimizer's
  candidate update improves the mean piece error by less than \<open>h_update_min_improvement\<close>
  (default 0.05) relative to \<open>previous_mean_error\<close>, or has a norm of the change of H above
  \<open>h_update_max_norm\<close> (default 0.10), the accepted H and the accepted scale after
  \<open>processFrame\<close> are equal to their values before the frame, and only the per-piece poses
  are taken from the optimizer's solution.
\<close>

theorem h_update_gate_rejects:
  assumes enabled: "locking_enabled T"
    and rejected:
      "(previous_mean_error T \<noteq> 0
          \<and> (previous_mean_error T - mean_error cand) / previous_mean_error T
              < h_update_min_improvement T)
       \<or> h_update_max_norm T < h_update_norm (sol_H cand) (accepted_H T)"
  shows "accepted_H (fst (processFrame T cand)) = accepted_H T
       \<and> accepted_scale (fst (processFrame T cand)) = accepted_scale T
       \<and> sol_poses (snd (processFrame T cand)) = sol_poses cand
       \<and> (\<not> homography_locked T \<longrightarrow>
            sol_H (snd (processFrame T cand)) = accepted_H T
            \<and> sol_scale (snd (processFrame T cand)) = accepted_scale T)"
proof -
  from rejected
  have r: "\<not> improved_enough T cand
      \<or> h_update_max_norm T \<le> h_update_norm (sol_H cand) (accepted_H T)"
    by (auto simp: improved_enough_def relative_improvement_def)
  note acc = gate_rejected [OF enabled r]
  have a1: "accepted_H (fst (processFrame T cand)) = accepted_H T"
    by (simp add: fst_processFrame acc)
  have a2: "accepted_scale (fst (processFrame T cand)) = accepted_scale T"
    by (simp add: fst_processFrame acc)
  have a3: "sol_poses (snd (processFrame T cand)) = sol_poses cand"
    by (simp add: snd_processFrame)
  have a4: "sol_H (snd (processFrame T cand)) = accepted_H T
            \<and> sol_scale (snd (processFrame T cand)) = accepted_scale T"
    if "\<not> homography_locked T"
    using that acc
    by (simp add: snd_processFrame emit_solution_def lock_step_def Let_def)
  from a1 a2 a3 a4 show ?thesis by blast
qed

section \<open>The locking state machine\<close>

lemma default_locking_step [simp]:
  "default_locking (fst (processFrame T cand)) = default_locking T"
  by (simp add: default_locking_def fst_processFrame)

lemma step_low_unlocked:
  assumes "default_locking T" "\<not> homography_locked T" "mean_error cand < 5"
  shows "frames_stable (fst (processFrame T cand)) = frames_stable T + 1"
    and "homography_locked (fst (processFrame T cand)) \<longleftrightarrow> 5 \<le> frames_stable T + 1"
    and "homography_locked (fst (processFrame T cand)) \<Longrightarrow>
           locked_H (fst (processFrame T cand)) = accepted_H (fst (processFrame T cand))
           \<and> locked_scale (fst (processFrame T cand)) = accepted_scale (fst (processFrame T cand))"
  using assms
  by (auto simp: default_locking_def fst_processFrame lock_step_def Let_def split: if_splits)

lemma step_locked:
  assumes "default_locking T" "homography_locked T"
  shows "homography_locked (fst (processFrame T cand)) \<longleftrightarrow> mean_error cand \<le> 15"
    and "locked_H (fst (processFrame T cand)) = locked_H T"
    and "locked_scale (fst (processFrame T cand)) = locked_scale T"
    and "accepted_H (fst (processFrame T cand)) = accepted_H T"
    and "accepted_scale (fst (processFrame T cand)) = accepted_scale T"
  using assms
  by (auto simp: default_locking_def fst_processFrame lock_step_def gate_step_def Let_def)

lemma emit_locked:
  assumes "default_locking T" "homography_locked T" "mean_error cand \<le> 15"
  shows "sol_H (snd (processFrame T cand)) = locked_H T"
    and "sol_scale (snd (processFrame T cand)) = locked_scale T"
    and "homographyLocked (snd (processFrame T cand))"
  using assms
  by (auto simp: default_locking_def snd_processFrame emit_solution_def lock_step_def Let_def)

lemma processFrames_append:
  "processFrames T (xs @ ys) = processFrames (processFrames T xs) ys"
  by (induction xs arbitrary: T) simp_all

lemma low_frames_lock:
  assumes "default_locking T" "\<forall>c \<in> set cands. mean_error c < 5"
    and "homography_locked T \<or> (cands \<noteq> [] \<and> 5 \<le> frames_stable T + int (length cands))"
  shows "homography_locked (processFrames T cands)"
  using assms
proof (induction cands arbitrary: T)
  case Nil
  then show ?case by simp
next
  case (Cons c cands)
  let ?T' = "fst (processFrame T c)"
  have d: "default_locking ?T'" using Cons.prems(1) by simp
  have low: "\<forall>c \<in> set cands. mean_error c < 5" using Cons.prems(2) by simp
  have c5: "mean_error c < 5" using Cons.prems(2) by simp
  have "homography_locked ?T' \<or> (cands \<noteq> [] \<and> 5 \<le> frames_stable ?T' + int (length cands))"
  proof (cases "homography_locked T")
    case True
    then show ?thesis
      using step_locked(1) [OF Cons.prems(1) True, of c] c5 by simp
  next
    case False
    note s = step_low_unlocked [OF Cons.prems(1) False c5]
    from Cons.prems(3) False have "5 \<le> frames_stable T + 1 + int (length cands)" by simp
    then show ?thesis
      using s(1) s(2) by (cases cands) auto
  qed
  from Cons.IH [OF d low this] show ?case by simp
qed

lemma low_frames_count:
  assumes "default_locking T" "\<forall>c \<in> set cands. mean_error c < 5"
    and "\<not> homography_locked T" "frames_stable T + int (length cands) < 5"
  shows "\<not> homography_locked (processFrames T cands)
       \<and> frames_stable (processFrames T cands) = frames_stable T + int (length cands)"
  using assms
proof (induction cands arbitrary: T)
  case Nil
  then show ?case by simp
next
  case (Cons c cands)
  let ?T' = "fst (processFrame T c)"
  have d: "default_locking ?T'" using Cons.prems(1) by simp
  have low: "\<forall>c \<in> set cands. mean_error c < 5" using Cons.prems(2) by simp
  have c5: "mean_error c < 5" using Cons.prems(2) by simp
  note s = step_low_unlocked [OF Cons.prems(1) Cons.prems(3) c5]
  have u: "\<not> homography_locked ?T'"
    using s(2) Cons.prems(4) by simp
  have n: "frames_stable ?T' + int (length cands) < 5"
    using s(1) Cons.prems(4) by simp
  from Cons.IH [OF d low u n] show ?case
    using s(1) by simp
qed

lemma default_locking_frames [simp]:
  "default_locking (processFrames T cands) = default_locking T"
  by (induction cands arbitrary: T) simp_all

text \<open>
  Claim C5. The locking state machine with locking enabled and the default thresholds:
  from an unlocked state, 5 consecutive frames each with mean piece error below 5.0 lock the
  homography; counted from a fresh counter the lock happens at the fifth frame and not
  before, and the locked H and scale are the accepted ones of that moment. While locked, a
  frame with mean error above 15.0 unlocks; a frame with mean error at most 15.0 (so every
  error between 5.0 and 15.0) leaves the homography locked, the locked H and scale
  unchanged, and the emitted solution carries the locked H and scale with the new poses.
\<close>

theorem locking_hysteresis:
  assumes cfg: "locking_enabled T" "frames_needed_for_lock T = 5"
      "lock_error_threshold T = 5" "unlock_error_threshold T = 15"
  shows "(\<not> homography_locked T \<and> 0 \<le> frames_stable T \<and> length cands = 5
           \<and> (\<forall>c \<in> set cands. mean_error c < 5) \<longrightarrow>
          homography_locked (processFrames T cands))
       \<and> (\<not> homography_locked T \<and> frames_stable T = 0 \<and> length cands = 5
           \<and> (\<forall>c \<in> set cands. mean_error c < 5) \<longrightarrow>
          \<not> homography_locked (processFrames T (butlast cands))
          \<and> homography_locked (processFrames T cands)
          \<and> locked_H (processFrames T cands) = accepted_H (processFrames T cands)
          \<and> locked_scale (processFrames T cands) = accepted_scale (processFrames T cands))
       \<and> (homography_locked T \<and> 15 < mean_error cand \<longrightarrow>
          \<not> homography_locked (fst (processFrame T cand)))
       \<and> (homography_locked T \<and> mean_error cand \<le> 15 \<longrightarrow>
          homography_locked (fst (processFrame T cand))
          \<and> locked_H (fst (processFrame T cand)) = locked_H T
          \<and> locked_scale (fst (processFrame T cand)) = locked_scale T
          \<and> sol_H (snd (processFrame T cand)) = locked_H T
          \<and> sol_scale (snd (processFrame T cand)) = locked_scale T
          \<and> sol_poses (snd (processFrame T cand)) = sol_poses cand
          \<and> homographyLocked (snd (processFrame T cand)))"
proof -
  from cfg have d: "default_locking T"
    by (simp add: default_locking_def)
  have p1: "homography_locked (processFrames T cands)"
    if a: "\<not> homography_locked T \<and> 0 \<le> frames_stable T \<and> length cands = 5
           \<and> (\<forall>c \<in> set cands. mean_error c < 5)"
  proof -
    from a have "cands \<noteq> [] \<and> 5 \<le> frames_stable T + int (length cands)" by auto
    then show ?thesis using low_frames_lock [OF d, of cands] a by blast
  qed
  have p2: "\<not> homography_locked (processFrames T (butlast cands))
          \<and> homography_locked (processFrames T cands)
          \<and> locked_H (processFrames T cands) = accepted_H (processFrames T cands)
          \<and> locked_scale (processFrames T cands) = accepted_scale (processFrames T cands)"
    if a: "\<not> homography_locked T \<and> frames_stable T = 0 \<and> length cands = 5
           \<and> (\<forall>c \<in> set cands. mean_error c < 5)"
  proof -
    let ?pre = "butlast cands"
    let ?T4 = "processFrames T ?pre"
    from a have ne: "cands \<noteq> []" by auto
    then have split: "cands = ?pre @ [last cands]" by simp
    have low4: "\<forall>c \<in> set ?pre. mean_error c < 5"
      using a by (auto dest: in_set_butlastD)
    have len4: "frames_stable T + int (length ?pre) < 5"
      using a by simp
    from low_frames_count [OF d low4 _ len4] a
    have u4: "\<not> homography_locked ?T4" and f4: "frames_stable ?T4 = 4"
      by simp_all
    have d4: "default_locking ?T4" using d by simp
    have l5: "mean_error (last cands) < 5" using a ne by simp
    note s = step_low_unlocked [OF d4 u4 l5]
    have fin: "processFrames T cands = fst (processFrame ?T4 (last cands))"
      by (subst split) (simp add: processFrames_append)
    have locked: "homography_locked (fst (processFrame ?T4 (last cands)))"
      using s(2) f4 by simp
    show ?thesis
      using u4 locked s(3) [OF locked] by (simp add: fin)
  qed
  have p3: "\<not> homography_locked (fst (processFrame T cand))"
    if "homography_locked T \<and> 15 < mean_error cand"
    using that step_locked(1) [OF d, of cand] by simp
  have p4: "homography_locked (fst (processFrame T cand))
          \<and> locked_H (fst (processFrame T cand)) = locked_H T
          \<and> locked_scale (fst (processFrame T cand)) = locked_scale T
          \<and> sol_H (snd (processFrame T cand)) = locked_H T
          \<and> sol_scale (snd (processFrame T cand)) = locked_scale T
          \<and> sol_poses (snd (processFrame T cand)) = sol_poses cand
          \<and> homographyLocked (snd (processFrame T cand))"
    if a: "homography_locked T \<and> mean_error cand \<le> 15"
  proof -
    from a have l: "homography_locked T" and e: "mean_error cand \<le> 15" by simp_all
    show ?thesis
      using step_locked [OF d l, of cand] emit_locked [OF d l e] e
      by (simp add: snd_processFrame)
  qed
  from p1 p2 p3 p4 show ?thesis by blast
qed

section \<open>Orchestrators and frames at concrete inputs\<close>

lemma mean_error_frame [simp]: "mean_error (frame_solution A e) = e"
  by (simp add: mean_error_def frame_solution_def)

lemma frame_solution_fields [simp]:
  "sol_H (frame_solution A e) = A"
  "sol_scale (frame_solution A e) = 1"
  "sol_poses (frame_solution A e) = example_poses"
  by (simp_all add: frame_solution_def)

lemma shifted_norm: "h_update_norm shifted_matx identity_matx = 1"
  by (simp add: h_update_norm_def shifted_matx_def identity_matx_def)

theorem h_update_gate_rejects_witness:
  "locking_enabled (new_TrackedBA identity_matx)
   \<and> h_update_max_norm (new_TrackedBA identity_matx)
       < h_update_norm (sol_H (frame_solution shifted_matx 1)) (accepted_H (new_TrackedBA identity_matx))
   \<and> accepted_H (fst (processFrame (new_TrackedBA identity_matx) (frame_solution shifted_matx 1)))
       = identity_matx
   \<and> accepted_scale (fst (processFrame (new_TrackedBA identity_matx) (frame_solution shifted_matx 1)))
       = 1
   \<and> locking_enabled ((new_TrackedBA identity_matx)\<lparr>previous_mean_error := 2\<rparr>)
   \<and> (2 - mean_error (frame_solution identity_matx (195 / 100))) / 2 < (5 / 100 :: real)
   \<and> accepted_H (fst (processFrame ((new_TrackedBA identity_matx)\<lparr>previous_mean_error := 2\<rparr>)
                        (frame_solution identity_matx (195 / 100))))
       = identity_matx"
proof -
  let ?T = "new_TrackedBA identity_matx"
  let ?T2 = "(new_TrackedBA identity_matx)\<lparr>previous_mean_error := 2\<rparr>"
  have e: "locking_enabled ?T" "accepted_H ?T = identity_matx" "accepted_scale ?T = 1"
    "h_update_max_norm ?T = 10 / 100"
    by (simp_all add: new_TrackedBA_def)
  have e2: "locking_enabled ?T2" "accepted_H ?T2 = identity_matx" "previous_mean_error ?T2 = 2"
    "h_update_min_improvement ?T2 = 5 / 100"
    by (simp_all add: new_TrackedBA_def)
  have n: "h_update_max_norm ?T
       < h_update_norm (sol_H (frame_solution shifted_matx 1)) (accepted_H ?T)"
    by (simp add: e shifted_norm)
  then have r: "(previous_mean_error ?T \<noteq> 0
          \<and> (previous_mean_error ?T - mean_error (frame_solution shifted_matx 1)) / previous_mean_error ?T
              < h_update_min_improvement ?T)
       \<or> h_update_max_norm ?T
           < h_update_norm (sol_H (frame_solution shifted_matx 1)) (accepted_H ?T)"
    by (rule disjI2)
  note c = h_update_gate_rejects [OF e(1) r]
  have i: "(2 - mean_error (frame_solution identity_matx (195 / 100))) / 2 < (5 / 100 :: real)"
    by simp
  then have r2: "(previous_mean_error ?T2 \<noteq> 0
          \<and> (previous_mean_error ?T2 - mean_error (frame_solution identity_matx (195 / 100)))
               / previous_mean_error ?T2
              < h_update_min_improvement ?T2)
       \<or> h_update_max_norm ?T2
           < h_update_norm (sol_H (frame_solution identity_matx (195 / 100))) (accepted_H ?T2)"
    by (simp add: e2)
  note c2 = h_update_gate_rejects [OF e2(1) r2]
  show ?thesis
    using c c2 n i e e2 by simp
qed

text \<open>
  Claim C4 as stated, for every frame, fails for an orchestrator with locking disabled, whose
  gate always passes: a candidate whose change of H has norm 1, above 0.10, is accepted.
\<close>

theorem h_update_gate_disabled_counterexample:
  "\<not> locking_enabled (setLockingEnabled False (new_TrackedBA identity_matx))
   \<and> h_update_max_norm (setLockingEnabled False (new_TrackedBA identity_matx))
       < h_update_norm (sol_H (frame_solution shifted_matx 1))
           (accepted_H (setLockingEnabled False (new_TrackedBA identity_matx)))
   \<and> accepted_H (setLockingEnabled False (new_TrackedBA identity_matx)) = identity_matx
   \<and> accepted_H (fst (processFrame (setLockingEnabled False (new_TrackedBA identity_matx))
                        (frame_solution shifted_matx 1)))
       = shifted_matx
   \<and> shifted_matx \<noteq> identity_matx"
proof -
  let ?T = "setLockingEnabled False (new_TrackedBA identity_matx)"
  have e: "\<not> locking_enabled ?T" "accepted_H ?T = identity_matx" "\<not> homography_locked ?T"
    "h_update_max_norm ?T = 10 / 100"
    by (simp_all add: new_TrackedBA_def setLockingEnabled_def)
  have g: "gate_step ?T (frame_solution shifted_matx 1)
      = ?T\<lparr>accepted_H := shifted_matx, accepted_scale := 1, previous_mean_error := 1\<rparr>"
    using e by (simp add: gate_step_def h_update_gate_def)
  have a: "accepted_H (fst (processFrame ?T (frame_solution shifted_matx 1))) = shifted_matx"
    by (simp add: fst_processFrame g)
  have d: "shifted_matx \<noteq> identity_matx"
    by (simp add: shifted_matx_def identity_matx_def)
  show ?thesis
    using e a d by (simp add: shifted_norm)
qed

theorem locking_hysteresis_witness:
  "locking_enabled (new_TrackedBA identity_matx)
   \<and> frames_needed_for_lock (new_TrackedBA identity_matx) = 5
   \<and> lock_error_threshold (new_TrackedBA identity_matx) = 5
   \<and> unlock_error_threshold (new_TrackedBA identity_matx) = 15
   \<and> \<not> homography_locked (new_TrackedBA identity_matx)
   \<and> frames_stable (new_TrackedBA identity_matx) = 0
   \<and> length (replicate 5 (frame_solution identity_matx 1)) = 5
   \<and> list_all (\<lambda>c. mean_error c < 5) (replicate 5 (frame_solution identity_matx 1))
   \<and> \<not> homography_locked (processFrames (new_TrackedBA identity_matx)
          (butlast (replicate 5 (frame_solution identity_matx 1))))
   \<and> homography_locked (processFrames (new_TrackedBA identity_matx)
          (replicate 5 (frame_solution identity_matx 1)))
   \<and> homography_locked locked_TrackedBA
   \<and> 15 < mean_error (frame_solution identity_matx 20)
   \<and> \<not> homography_locked (fst (processFrame locked_TrackedBA (frame_solution identity_matx 20)))
   \<and> mean_error (frame_solution shifted_matx 10) \<le> 15
   \<and> homography_locked (fst (processFrame locked_TrackedBA (frame_solution shifted_matx 10)))
   \<and> sol_H (snd (processFrame locked_TrackedBA (frame_solution shifted_matx 10))) = identity_matx"
proof -
  let ?T = "new_TrackedBA identity_matx"
  let ?five = "replicate 5 (frame_solution identity_matx 1)"
  have cfg: "locking_enabled ?T" "frames_needed_for_lock ?T = 5"
    "lock_error_threshold ?T = 5" "unlock_error_threshold ?T = 15"
    by (simp_all add: new_TrackedBA_def)
  have cfgL: "locking_enabled locked_TrackedBA" "frames_needed_for_lock locked_TrackedBA = 5"
    "lock_error_threshold locked_TrackedBA = 5" "unlock_error_threshold locked_TrackedBA = 15"
    by (simp_all add: locked_TrackedBA_def new_TrackedBA_def)
  have h: "\<not> homography_locked ?T \<and> frames_stable ?T = 0 \<and> length ?five = 5
           \<and> (\<forall>c \<in> set ?five. mean_error c < 5)"
    by (simp add: new_TrackedBA_def)
  have hb: "homography_locked locked_TrackedBA \<and> 15 < mean_error (frame_solution identity_matx 20)"
    by (simp add: locked_TrackedBA_def)
  have hm: "homography_locked locked_TrackedBA \<and> mean_error (frame_solution shifted_matx 10) \<le> 15"
    by (simp add: locked_TrackedBA_def)
  have lH: "locked_H locked_TrackedBA = identity_matx"
    by (simp add: locked_TrackedBA_def new_TrackedBA_def)
  note t1 = locking_hysteresis [OF cfg, of ?five, THEN conjunct2, THEN conjunct1, THEN mp, OF h]
  note t3 = locking_hysteresis [OF cfgL, of _ "frame_solution identity_matx 20",
      THEN conjunct2, THEN conjunct2, THEN conjunct1, THEN mp, OF hb]
  note t4 = locking_hysteresis [OF cfgL, of _ "frame_solution shifted_matx 10",
      THEN conjunct2, THEN conjunct2, THEN conjunct2, THEN mp, OF hm]
  have la: "list_all (\<lambda>c. mean_error c < 5) ?five"
    by (simp add: list_all_iff)
  show ?thesis
    using cfg h hb hm t1 t3 t4 lH la by simp
qed

end
